theory Spec2Isabelle
  imports Main
begin

section \<open>Python strings and errors\<close>

text \<open>
  A Python \<open>str\<close> is a sequence of Unicode code points, and \<open>len\<close> counts code
  points. A character is modelled by its code point (\<open>ord\<close>), a string by the list of
  its code points. \<open>str\<close> turns an ASCII literal of the theory into such a string.
\<close>

type_synonym pychar = nat
type_synonym pystr = "nat list"

definition str :: "string \<Rightarrow> pystr" where
  "str cs = map of_char cs"

abbreviation TAB :: pychar where "TAB \<equiv> 9"
abbreviation LF :: pychar where "LF \<equiv> 10"
abbreviation CR :: pychar where "CR \<equiv> 13"
abbreviation BACKSLASH :: pychar where "BACKSLASH \<equiv> 92"
abbreviation LETTER_n :: pychar where "LETTER_n \<equiv> 110"
abbreviation LETTER_r :: pychar where "LETTER_r \<equiv> 114"
abbreviation LETTER_t :: pychar where "LETTER_t \<equiv> 116"

text \<open>The exceptions that the modelled code and the builtins it calls can raise.\<close>

datatype error = IndexError | KeyError pystr | ValueError | OverflowError

text \<open>\<open>s[i]\<close> for an index \<open>i \<ge> 0\<close>: raises \<open>IndexError\<close> out of range.\<close>

definition getitem :: "pystr \<Rightarrow> nat \<Rightarrow> error + pychar" where
  "getitem s i = (if i < length s then Inr (s ! i) else Inl IndexError)"

text \<open>
  \<open>s.replace(old, new)\<close> where \<open>old\<close> is one character, which is how every call of
  the module uses it: each occurrence of \<open>old\<close>, left to right, is replaced by \<open>new\<close>.
\<close>

fun replace :: "pystr \<Rightarrow> pychar \<Rightarrow> pystr \<Rightarrow> pystr" where
  "replace [] old new = []"
| "replace (c # cs) old new =
     (if c = old then new @ replace cs old new else c # replace cs old new)"

section \<open>Input support methods\<close>

subsection \<open>Escaping\<close>

definition escape_newlines :: "pystr \<Rightarrow> pystr" where
  "escape_newlines s =
     (if s = [] then s
      else let s1 = replace s BACKSLASH [BACKSLASH, BACKSLASH];
               s2 = replace s1 LF [BACKSLASH, LETTER_n];
               s3 = replace s2 CR [BACKSLASH, LETTER_r]
           in s3)"

definition escape_tabs_newlines :: "pystr \<Rightarrow> pystr" where
  "escape_tabs_newlines s =
     (if s = [] then s
      else let s1 = replace s BACKSLASH [BACKSLASH, BACKSLASH];
               s2 = replace s1 LF [BACKSLASH, LETTER_n];
               s3 = replace s2 CR [BACKSLASH, LETTER_r];
               s4 = replace s3 TAB [BACKSLASH, LETTER_t]
           in s4)"

subsection \<open>Unescaping\<close>

text \<open>
  The loop \<open>for i in range(len(s)): c = s[i]; ...\<close> over the state \<open>(d, in_escape)\<close>:
  \<open>for_range\<close> runs a body over a list of indices, reading \<open>s[i]\<close> at each, and stops
  at the first exception.
\<close>

fun for_range :: "(pychar \<Rightarrow> 'st \<Rightarrow> 'st) \<Rightarrow> pystr \<Rightarrow> nat list \<Rightarrow> 'st \<Rightarrow> error + 'st" where
  "for_range body s [] st = Inr st"
| "for_range body s (i # is) st =
     (case getitem s i of
        Inl e \<Rightarrow> Inl e
      | Inr c \<Rightarrow> for_range body s is (body c st))"

fun unescape_newlines_body :: "pychar \<Rightarrow> pystr \<times> bool \<Rightarrow> pystr \<times> bool" where
  "unescape_newlines_body c (d, in_escape) =
     (if in_escape then
        (if c = LETTER_r then (d @ [CR], False)
         else if c = LETTER_n then (d @ [LF], False)
         else (d @ [c], False))
      else
        (if c = BACKSLASH then (d, True)
         else (d @ [c], in_escape)))"

definition unescape_newlines_loop :: "pystr \<Rightarrow> error + pystr \<times> bool" where
  "unescape_newlines_loop s =
     for_range unescape_newlines_body s [0..<length s] ([], False)"

definition unescape_newlines :: "pystr \<Rightarrow> error + pystr" where
  "unescape_newlines s =
     (if s = [] then Inr s
      else case unescape_newlines_loop s of
             Inl e \<Rightarrow> Inl e
           | Inr (d, in_escape) \<Rightarrow> Inr d)"

fun unescape_tabs_newlines_body :: "pychar \<Rightarrow> pystr \<times> bool \<Rightarrow> pystr \<times> bool" where
  "unescape_tabs_newlines_body c (d, in_escape) =
     (if in_escape then
        (if c = LETTER_r then (d @ [CR], False)
         else if c = LETTER_n then (d @ [LF], False)
         else if c = LETTER_t then (d @ [TAB], False)
         else (d @ [c], False))
      else
        (if c = BACKSLASH then (d, True)
         else (d @ [c], in_escape)))"

definition unescape_tabs_newlines_loop :: "pystr \<Rightarrow> error + pystr \<times> bool" where
  "unescape_tabs_newlines_loop s =
     for_range unescape_tabs_newlines_body s [0..<length s] ([], False)"

definition unescape_tabs_newlines :: "pystr \<Rightarrow> error + pystr" where
  "unescape_tabs_newlines s =
     (if s = [] then Inr s
      else case unescape_tabs_newlines_loop s of
             Inl e \<Rightarrow> Inl e
           | Inr (d, in_escape) \<Rightarrow> Inr d)"


subsection \<open>The Escape Mapping, character by character\<close>

text \<open>
  The table of the specification's data model: the escape sequence of one raw
  character, for the plain codec and for the tab-aware one. The proofs relate the three
  (four) successive \<open>replace\<close> passes of the code to these maps.
\<close>

fun escape_char :: "pychar \<Rightarrow> pystr" where
  "escape_char c =
     (if c = BACKSLASH then [BACKSLASH, BACKSLASH]
      else if c = LF then [BACKSLASH, LETTER_n]
      else if c = CR then [BACKSLASH, LETTER_r]
      else [c])"

fun escape_tab_char :: "pychar \<Rightarrow> pystr" where
  "escape_tab_char c =
     (if c = BACKSLASH then [BACKSLASH, BACKSLASH]
      else if c = LF then [BACKSLASH, LETTER_n]
      else if c = CR then [BACKSLASH, LETTER_r]
      else if c = TAB then [BACKSLASH, LETTER_t]
      else [c])"

section \<open>Unicode constants\<close>

subsection \<open>The builtins the range expander calls\<close>

abbreviation SPACE :: pychar where "SPACE \<equiv> 32"
abbreviation PLUS :: pychar where "PLUS \<equiv> 43"
abbreviation HYPHEN :: pychar where "HYPHEN \<equiv> 45"
abbreviation DIGIT_0 :: pychar where "DIGIT_0 \<equiv> 48"
abbreviation QUESTION_MARK :: pychar where "QUESTION_MARK \<equiv> 63"
abbreviation LETTER_X :: pychar where "LETTER_X \<equiv> 88"
abbreviation UNDERSCORE :: pychar where "UNDERSCORE \<equiv> 95"
abbreviation LETTER_x :: pychar where "LETTER_x \<equiv> 120"

text \<open>
  \<open>chr(i)\<close>, as CPython 3.11 has it: an argument that does not fit a C \<open>int\<close> raises
  \<open>OverflowError\<close>, one outside \<open>range(0x110000)\<close> raises \<open>ValueError\<close>, and every
  code point of the range is accepted, the surrogates \<open>0xD800\<close> to \<open>0xDFFF\<close>
  included.
\<close>

definition chr :: "int \<Rightarrow> error + pychar" where
  "chr i =
     (if i < - 2147483648 \<or> 2147483647 < i then Inl OverflowError
      else if i < 0 \<or> 0x10FFFF < i then Inl ValueError
      else Inr (nat i))"

text \<open>
  \<open>s.split(sep)\<close> for a one-character separator: the pieces between the occurrences
  of \<open>sep\<close>, empty pieces included; \<open>cur\<close> is the piece being read.
\<close>

fun split_from :: "pystr \<Rightarrow> pychar \<Rightarrow> pystr \<Rightarrow> pystr list" where
  "split_from cur sep [] = [cur]"
| "split_from cur sep (c # cs) =
     (if c = sep then cur # split_from [] sep cs else split_from (cur @ [c]) sep cs)"

definition split :: "pystr \<Rightarrow> pychar \<Rightarrow> pystr list" where
  "split s sep = split_from [] sep s"

text \<open>
  \<open>int(x, 16)\<close> for a string \<open>x\<close>, following CPython (\<open>PyLong_FromUnicodeObject\<close>
  and \<open>PyLong_FromString\<close>). First every character from code point 127 on is replaced:
  a Unicode space by an ASCII space, a Unicode decimal digit by its ASCII digit,
  anything else by a question mark (CPython cuts the string there; both are rejected by
  the parser). Then: leading ASCII whitespace, an optional sign, an optional prefix
  \<open>0x\<close> or \<open>0X\<close> with at most one underscore after it, digits of base 16 with single
  underscores between them, trailing ASCII whitespace. \<open>decimal_zeros\<close> lists the
  digits zero of the Unicode database 14.0.0 (each is followed by its digits one to nine).
\<close>

definition Py_ISSPACE :: "pychar \<Rightarrow> bool" where
  "Py_ISSPACE c = (c = 9 \<or> c = 10 \<or> c = 11 \<or> c = 12 \<or> c = 13 \<or> c = 32)"

definition Py_UNICODE_ISSPACE :: "pychar \<Rightarrow> bool" where
  "Py_UNICODE_ISSPACE c =
     ((9 \<le> c \<and> c \<le> 13) \<or> (28 \<le> c \<and> c \<le> 32) \<or> c = 0x85 \<or> c = 0xA0 \<or> c = 0x1680 \<or>
      (0x2000 \<le> c \<and> c \<le> 0x200A) \<or> c = 0x2028 \<or> c = 0x2029 \<or> c = 0x202F \<or>
      c = 0x205F \<or> c = 0x3000)"

definition decimal_zeros :: "pychar list" where
  "decimal_zeros =
     [0x30, 0x660, 0x6F0, 0x7C0, 0x966, 0x9E6, 0xA66, 0xAE6, 0xB66, 0xBE6, 0xC66, 0xCE6,
      0xD66, 0xDE6, 0xE50, 0xED0, 0xF20, 0x1040, 0x1090, 0x17E0, 0x1810, 0x1946, 0x19D0,
      0x1A80, 0x1A90, 0x1B50, 0x1BB0, 0x1C40, 0x1C50, 0xA620, 0xA8D0, 0xA900, 0xA9D0,
      0xA9F0, 0xAA50, 0xABF0, 0xFF10, 0x104A0, 0x10D30, 0x11066, 0x110F0, 0x11136,
      0x111D0, 0x112F0, 0x11450, 0x114D0, 0x11650, 0x116C0, 0x11730, 0x118E0, 0x11950,
      0x11C50, 0x11D50, 0x11DA0, 0x16A60, 0x16AC0, 0x16B50, 0x1D7CE, 0x1D7D8, 0x1D7E2,
      0x1D7EC, 0x1D7F6, 0x1E140, 0x1E2F0, 0x1E950, 0x1FBF0]"

definition Py_UNICODE_TODECIMAL :: "pychar \<Rightarrow> nat option" where
  "Py_UNICODE_TODECIMAL c =
     (case find (\<lambda>z. z \<le> c \<and> c < z + 10) decimal_zeros of
        None \<Rightarrow> None
      | Some z \<Rightarrow> Some (c - z))"

definition to_ascii :: "pychar \<Rightarrow> pychar" where
  "to_ascii c =
     (if c < 127 then c
      else if Py_UNICODE_ISSPACE c then SPACE
      else case Py_UNICODE_TODECIMAL c of
             Some d \<Rightarrow> DIGIT_0 + d
           | None \<Rightarrow> QUESTION_MARK)"

text \<open>The value of a character as a digit; 37 for a character that is no digit.\<close>

definition digit_value :: "pychar \<Rightarrow> nat" where
  "digit_value c =
     (if 48 \<le> c \<and> c \<le> 57 then c - 48
      else if 97 \<le> c \<and> c \<le> 122 then c - 87
      else if 65 \<le> c \<and> c \<le> 90 then c - 55
      else 37)"

fun skip_prefix :: "pystr \<Rightarrow> pystr" where
  "skip_prefix (z # x # cs) =
     (if z = DIGIT_0 \<and> (x = LETTER_x \<or> x = LETTER_X)
      then (case cs of [] \<Rightarrow> cs | u # us \<Rightarrow> if u = UNDERSCORE then us else cs)
      else z # x # cs)"
| "skip_prefix cs = cs"

text \<open>
  The scan over the digits: \<open>prev\<close> is the character before, \<open>acc\<close> the value read so
  far. It returns the value and what follows the digits, and fails on two underscores
  in a row and on an underscore at the end of the digits.
\<close>

fun scan_digits :: "pychar \<Rightarrow> int \<Rightarrow> pystr \<Rightarrow> error + int \<times> pystr" where
  "scan_digits prev acc [] =
     (if prev = UNDERSCORE then Inl ValueError else Inr (acc, []))"
| "scan_digits prev acc (c # cs) =
     (if c = UNDERSCORE then
        (if prev = UNDERSCORE then Inl ValueError else scan_digits c acc cs)
      else if digit_value c < 16 then scan_digits c (acc * 16 + int (digit_value c)) cs
      else if prev = UNDERSCORE then Inl ValueError
      else Inr (acc, c # cs))"

definition int16 :: "pystr \<Rightarrow> error + int" where
  "int16 x =
     (let s1 = dropWhile Py_ISSPACE (map to_ascii x);
          (sign, s2) = (case s1 of
                          [] \<Rightarrow> (1, s1)
                        | c # cs \<Rightarrow> if c = PLUS then (1, cs)
                                    else if c = HYPHEN then (- 1, cs)
                                    else (1, s1));
          s3 = skip_prefix s2
      in if s3 \<noteq> [] \<and> hd s3 = UNDERSCORE then Inl ValueError
         else case scan_digits 0 0 s3 of
                Inl e \<Rightarrow> Inl e
              | Inr (v, rest) \<Rightarrow>
                  if rest = s3 then Inl ValueError
                  else if dropWhile Py_ISSPACE rest \<noteq> [] then Inl ValueError
                  else Inr (sign * v))"

subsection \<open>The range expander\<close>

text \<open>
  An element of \<open>srclist\<close> is an integer or a string (\<open>Union[str, int]\<close>).
\<close>

datatype src = SrcInt int | SrcStr pystr

text \<open>The comprehensions \<open>[int(x, 16) for x in ...]\<close> and \<open>[chr(x) for x in ...]\<close>.\<close>

fun int16_each :: "pystr list \<Rightarrow> error + int list" where
  "int16_each [] = Inr []"
| "int16_each (x # xs) =
     (case int16 x of
        Inl e \<Rightarrow> Inl e
      | Inr v \<Rightarrow> (case int16_each xs of Inl e \<Rightarrow> Inl e | Inr vs \<Rightarrow> Inr (v # vs)))"

fun chr_each :: "int list \<Rightarrow> error + pystr list" where
  "chr_each [] = Inr []"
| "chr_each (x # xs) =
     (case chr x of
        Inl e \<Rightarrow> Inl e
      | Inr c \<Rightarrow> (case chr_each xs of Inl e \<Rightarrow> Inl e | Inr cs \<Rightarrow> Inr ([c] # cs)))"

text \<open>
  The loop over \<open>srclist\<close>, with \<open>charlist\<close> the list of one-character strings built
  so far. \<open>range(first, last + 1)\<close> is the list \<open>[first..last]\<close>, empty when
  \<open>last < first\<close>; unpacking into \<open>first, last\<close> raises \<open>ValueError\<close> unless there
  are exactly two values.
\<close>

fun unicode_def_src_loop :: "src list \<Rightarrow> pystr list \<Rightarrow> error + pystr list" where
  "unicode_def_src_loop [] charlist = Inr charlist"
| "unicode_def_src_loop (SrcInt i # srclist) charlist =
     (case chr i of
        Inl e \<Rightarrow> Inl e
      | Inr c \<Rightarrow> unicode_def_src_loop srclist (charlist @ [[c]]))"
| "unicode_def_src_loop (SrcStr s # srclist) charlist =
     (case int16_each (split s HYPHEN) of
        Inl e \<Rightarrow> Inl e
      | Inr [first', last'] \<Rightarrow>
          (case chr_each [first'..last'] of
             Inl e \<Rightarrow> Inl e
           | Inr cs \<Rightarrow> unicode_def_src_loop srclist (charlist @ cs))
      | Inr _ \<Rightarrow> Inl ValueError)"

definition unicode_def_src_to_str :: "src list \<Rightarrow> error + pystr" where
  "unicode_def_src_to_str srclist =
     (case unicode_def_src_loop srclist [] of
        Inl e \<Rightarrow> Inl e
      | Inr charlist \<Rightarrow> Inr (concat charlist))"

subsection \<open>The category table\<close>

definition ASCII_src :: "src list" where
  "ASCII_src =
    [SrcStr (str ''0000-007F'')]"

definition Alphabetic_src :: "src list" where
  "Alphabetic_src =
    [SrcStr (str ''0041-005A''), SrcStr (str ''0061-007A''), SrcInt 0x00AA, SrcInt 0x00B5,
     SrcInt 0x00BA, SrcStr (str ''00C0-00D6''), SrcStr (str ''00D8-00F6''),
     SrcStr (str ''00F8-02C1''), SrcStr (str ''02C6-02D1''), SrcStr (str ''02E0-02E4''),
     SrcInt 0x02EC, SrcInt 0x02EE, SrcInt 0x0345, SrcStr (str ''0370-0374''), SrcInt 0x0376,
     SrcInt 0x0377, SrcStr (str ''037A-037D''), SrcInt 0x037F, SrcInt 0x0386,
     SrcStr (str ''0388-038A''), SrcInt 0x038C, SrcStr (str ''038E-03A1''),
     SrcStr (str ''03A3-03F5''), SrcStr (str ''03F7-0481''), SrcStr (str ''048A-052F''),
     SrcStr (str ''0531-0556''), SrcInt 0x0559, SrcStr (str ''0561-0587''),
     SrcStr (str ''05B0-05BD''), SrcInt 0x05BF, SrcInt 0x05C1, SrcInt 0x05C2, SrcInt 0x05C4,
     SrcInt 0x05C5, SrcInt 0x05C7, SrcStr (str ''05D0-05EA''), SrcStr (str ''05F0-05F2''),
     SrcStr (str ''0610-061A''), SrcStr (str ''0620-0657''), SrcStr (str ''0659-065F''),
     SrcStr (str ''066E-06D3''), SrcStr (str ''06D5-06DC''), SrcStr (str ''06E1-06E8''),
     SrcStr (str ''06ED-06EF''), SrcStr (str ''06FA-06FC''), SrcInt 0x06FF,
     SrcStr (str ''0710-073F''), SrcStr (str ''074D-07B1''), SrcStr (str ''07CA-07EA''),
     SrcInt 0x07F4, SrcInt 0x07F5, SrcInt 0x07FA, SrcStr (str ''0800-0817''),
     SrcStr (str ''081A-082C''), SrcStr (str ''0840-0858''), SrcStr (str ''08A0-08B4''),
     SrcStr (str ''08B6-08BD''), SrcStr (str ''08D4-08DF''), SrcStr (str ''08E3-08E9''),
     SrcStr (str ''08F0-093B''), SrcStr (str ''093D-094C''), SrcStr (str ''094E-0950''),
     SrcStr (str ''0955-0963''), SrcStr (str ''0971-0983''), SrcStr (str ''0985-098C''),
     SrcInt 0x098F, SrcInt 0x0990, SrcStr (str ''0993-09A8''), SrcStr (str ''09AA-09B0''),
     SrcInt 0x09B2, SrcStr (str ''09B6-09B9''), SrcStr (str ''09BD-09C4''), SrcInt 0x09C7,
     SrcInt 0x09C8, SrcInt 0x09CB, SrcInt 0x09CC, SrcInt 0x09CE, SrcInt 0x09D7, SrcInt 0x09DC,
     SrcInt 0x09DD, SrcStr (str ''09DF-09E3''), SrcInt 0x09F0, SrcInt 0x09F1,
     SrcStr (str ''0A01-0A03''), SrcStr (str ''0A05-0A0A''), SrcInt 0x0A0F, SrcInt 0x0A10,
     SrcStr (str ''0A13-0A28''), SrcStr (str ''0A2A-0A30''), SrcInt 0x0A32, SrcInt 0x0A33,
     SrcInt 0x0A35, SrcInt 0x0A36, SrcInt 0x0A38, SrcInt 0x0A39, SrcStr (str ''0A3E-0A42''),
     SrcInt 0x0A47, SrcInt 0x0A48, SrcInt 0x0A4B, SrcInt 0x0A4C, SrcInt 0x0A51,
     SrcStr (str ''0A59-0A5C''), SrcInt 0x0A5E, SrcStr (str ''0A70-0A75''),
     SrcStr (str ''0A81-0A83''), SrcStr (str ''0A85-0A8D''), SrcStr (str ''0A8F-0A91''),
     SrcStr (str ''0A93-0AA8''), SrcStr (str ''0AAA-0AB0''), SrcInt 0x0AB2, SrcInt 0x0AB3,
     SrcStr (str ''0AB5-0AB9''), SrcStr (str ''0ABD-0AC5''), SrcStr (str ''0AC7-0AC9''),
     SrcInt 0x0ACB, SrcInt 0x0ACC, SrcInt 0x0AD0, SrcStr (str ''0AE0-0AE3''), SrcInt 0x0AF9,
     SrcStr (str ''0B01-0B03''), SrcStr (str ''0B05-0B0C''), SrcInt 0x0B0F, SrcInt 0x0B10,
     SrcStr (str ''0B13-0B28''), SrcStr (str ''0B2A-0B30''), SrcInt 0x0B32, SrcInt 0x0B33,
     SrcStr (str ''0B35-0B39''), SrcStr (str ''0B3D-0B44''), SrcInt 0x0B47, SrcInt 0x0B48,
     SrcInt 0x0B4B, SrcInt 0x0B4C, SrcInt 0x0B56, SrcInt 0x0B57, SrcInt 0x0B5C, SrcInt 0x0B5D,
     SrcStr (str ''0B5F-0B63''), SrcInt 0x0B71, SrcInt 0x0B82, SrcInt 0x0B83,
     SrcStr (str ''0B85-0B8A''), SrcStr (str ''0B8E-0B90''), SrcStr (str ''0B92-0B95''),
     SrcInt 0x0B99, SrcInt 0x0B9A, SrcInt 0x0B9C, SrcInt 0x0B9E, SrcInt 0x0B9F, SrcInt 0x0BA3,
     SrcInt 0x0BA4, SrcStr (str ''0BA8-0BAA''), SrcStr (str ''0BAE-0BB9''),
     SrcStr (str ''0BBE-0BC2''), SrcStr (str ''0BC6-0BC8''), SrcStr (str ''0BCA-0BCC''),
     SrcInt 0x0BD0, SrcInt 0x0BD7, SrcStr (str ''0C00-0C03''), SrcStr (str ''0C05-0C0C''),
     SrcStr (str ''0C0E-0C10''), SrcStr (str ''0C12-0C28''), SrcStr (str ''0C2A-0C39''),
     SrcStr (str ''0C3D-0C44''), SrcStr (str ''0C46-0C48''), SrcStr (str ''0C4A-0C4C''),
     SrcInt 0x0C55, SrcInt 0x0C56, SrcStr (str ''0C58-0C5A''), SrcStr (str ''0C60-0C63''),
     SrcStr (str ''0C80-0C83''), SrcStr (str ''0C85-0C8C''), SrcStr (str ''0C8E-0C90''),
     SrcStr (str ''0C92-0CA8''), SrcStr (str ''0CAA-0CB3''), SrcStr (str ''0CB5-0CB9''),
     SrcStr (str ''0CBD-0CC4''), SrcStr (str ''0CC6-0CC8''), SrcStr (str ''0CCA-0CCC''),
     SrcInt 0x0CD5, SrcInt 0x0CD6, SrcInt 0x0CDE, SrcStr (str ''0CE0-0CE3''), SrcInt 0x0CF1,
     SrcInt 0x0CF2, SrcStr (str ''0D01-0D03''), SrcStr (str ''0D05-0D0C''),
     SrcStr (str ''0D0E-0D10''), SrcStr (str ''0D12-0D3A''), SrcStr (str ''0D3D-0D44''),
     SrcStr (str ''0D46-0D48''), SrcStr (str ''0D4A-0D4C''), SrcInt 0x0D4E,
     SrcStr (str ''0D54-0D57''), SrcStr (str ''0D5F-0D63''), SrcStr (str ''0D7A-0D7F''),
     SrcInt 0x0D82, SrcInt 0x0D83, SrcStr (str ''0D85-0D96''), SrcStr (str ''0D9A-0DB1''),
     SrcStr (str ''0DB3-0DBB''), SrcInt 0x0DBD, SrcStr (str ''0DC0-0DC6''),
     SrcStr (str ''0DCF-0DD4''), SrcInt 0x0DD6, SrcStr (str ''0DD8-0DDF''), SrcInt 0x0DF2,
     SrcInt 0x0DF3, SrcStr (str ''0E01-0E3A''), SrcStr (str ''0E40-0E46''), SrcInt 0x0E4D,
     SrcInt 0x0E81, SrcInt 0x0E82, SrcInt 0x0E84, SrcInt 0x0E87, SrcInt 0x0E88, SrcInt 0x0E8A,
     SrcInt 0x0E8D, SrcStr (str ''0E94-0E97''), SrcStr (str ''0E99-0E9F''),
     SrcStr (str ''0EA1-0EA3''), SrcInt 0x0EA5, SrcInt 0x0EA7, SrcInt 0x0EAA, SrcInt 0x0EAB,
     SrcStr (str ''0EAD-0EB9''), SrcStr (str ''0EBB-0EBD''), SrcStr (str ''0EC0-0EC4''),
     SrcInt 0x0EC6, SrcInt 0x0ECD, SrcStr (str ''0EDC-0EDF''), SrcInt 0x0F00,
     SrcStr (str ''0F40-0F47''), SrcStr (str ''0F49-0F6C''), SrcStr (str ''0F71-0F81''),
     SrcStr (str ''0F88-0F97''), SrcStr (str ''0F99-0FBC''), SrcStr (str ''1000-1036''),
     SrcInt 0x1038, SrcStr (str ''103B-103F''), SrcStr (str ''1050-1062''),
     SrcStr (str ''1065-1068''), SrcStr (str ''106E-1086''), SrcInt 0x108E, SrcInt 0x109C,
     SrcInt 0x109D, SrcStr (str ''10A0-10C5''), SrcInt 0x10C7, SrcInt 0x10CD,
     SrcStr (str ''10D0-10FA''), SrcStr (str ''10FC-1248''), SrcStr (str ''124A-124D''),
     SrcStr (str ''1250-1256''), SrcInt 0x1258, SrcStr (str ''125A-125D''),
     SrcStr (str ''1260-1288''), SrcStr (str ''128A-128D''), SrcStr (str ''1290-12B0''),
     SrcStr (str ''12B2-12B5''), SrcStr (str ''12B8-12BE''), SrcInt 0x12C0,
     SrcStr (str ''12C2-12C5''), SrcStr (str ''12C8-12D6''), SrcStr (str ''12D8-1310''),
     SrcStr (str ''1312-1315''), SrcStr (str ''1318-135A''), SrcInt 0x135F,
     SrcStr (str ''1380-138F''), SrcStr (str ''13A0-13F5''), SrcStr (str ''13F8-13FD''),
     SrcStr (str ''1401-166C''), SrcStr (str ''166F-167F''), SrcStr (str ''1681-169A''),
     SrcStr (str ''16A0-16EA''), SrcStr (str ''16EE-16F8''), SrcStr (str ''1700-170C''),
     SrcStr (str ''170E-1713''), SrcStr (str ''1720-1733''), SrcStr (str ''1740-1753''),
     SrcStr (str ''1760-176C''), SrcStr (str ''176E-1770''), SrcInt 0x1772, SrcInt 0x1773,
     SrcStr (str ''1780-17B3''), SrcStr (str ''17B6-17C8''), SrcInt 0x17D7, SrcInt 0x17DC,
     SrcStr (str ''1820-1877''), SrcStr (str ''1880-18AA''), SrcStr (str ''18B0-18F5''),
     SrcStr (str ''1900-191E''), SrcStr (str ''1920-192B''), SrcStr (str ''1930-1938''),
     SrcStr (str ''1950-196D''), SrcStr (str ''1970-1974''), SrcStr (str ''1980-19AB''),
     SrcStr (str ''19B0-19C9''), SrcStr (str ''1A00-1A1B''), SrcStr (str ''1A20-1A5E''),
     SrcStr (str ''1A61-1A74''), SrcInt 0x1AA7, SrcStr (str ''1B00-1B33''),
     SrcStr (str ''1B35-1B43''), SrcStr (str ''1B45-1B4B''), SrcStr (str ''1B80-1BA9''),
     SrcStr (str ''1BAC-1BAF''), SrcStr (str ''1BBA-1BE5''), SrcStr (str ''1BE7-1BF1''),
     SrcStr (str ''1C00-1C35''), SrcStr (str ''1C4D-1C4F''), SrcStr (str ''1C5A-1C7D''),
     SrcStr (str ''1C80-1C88''), SrcStr (str ''1CE9-1CEC''), SrcStr (str ''1CEE-1CF3''),
     SrcInt 0x1CF5, SrcInt 0x1CF6, SrcStr (str ''1D00-1DBF''), SrcStr (str ''1DE7-1DF4''),
     SrcStr (str ''1E00-1F15''), SrcStr (str ''1F18-1F1D''), SrcStr (str ''1F20-1F45''),
     SrcStr (str ''1F48-1F4D''), SrcStr (str ''1F50-1F57''), SrcInt 0x1F59, SrcInt 0x1F5B,
     SrcInt 0x1F5D, SrcStr (str ''1F5F-1F7D''), SrcStr (str ''1F80-1FB4''),
     SrcStr (str ''1FB6-1FBC''), SrcInt 0x1FBE, SrcStr (str ''1FC2-1FC4''),
     SrcStr (str ''1FC6-1FCC''), SrcStr (str ''1FD0-1FD3''), SrcStr (str ''1FD6-1FDB''),
     SrcStr (str ''1FE0-1FEC''), SrcStr (str ''1FF2-1FF4''), SrcStr (str ''1FF6-1FFC''),
     SrcInt 0x2071, SrcInt 0x207F, SrcStr (str ''2090-209C''), SrcInt 0x2102, SrcInt 0x2107,
     SrcStr (str ''210A-2113''), SrcInt 0x2115, SrcStr (str ''2119-211D''), SrcInt 0x2124,
     SrcInt 0x2126, SrcInt 0x2128, SrcStr (str ''212A-212D''), SrcStr (str ''212F-2139''),
     SrcStr (str ''213C-213F''), SrcStr (str ''2145-2149''), SrcInt 0x214E,
     SrcStr (str ''2160-2188''), SrcStr (str ''24B6-24E9''), SrcStr (str ''2C00-2C2E''),
     SrcStr (str ''2C30-2C5E''), SrcStr (str ''2C60-2CE4''), SrcStr (str ''2CEB-2CEE''),
     SrcInt 0x2CF2, SrcInt 0x2CF3, SrcStr (str ''2D00-2D25''), SrcInt 0x2D27, SrcInt 0x2D2D,
     SrcStr (str ''2D30-2D67''), SrcInt 0x2D6F, SrcStr (str ''2D80-2D96''),
     SrcStr (str ''2DA0-2DA6''), SrcStr (str ''2DA8-2DAE''), SrcStr (str ''2DB0-2DB6''),
     SrcStr (str ''2DB8-2DBE''), SrcStr (str ''2DC0-2DC6''), SrcStr (str ''2DC8-2DCE''),
     SrcStr (str ''2DD0-2DD6''), SrcStr (str ''2DD8-2DDE''), SrcStr (str ''2DE0-2DFF''),
     SrcInt 0x2E2F, SrcStr (str ''3005-3007''), SrcStr (str ''3021-3029''),
     SrcStr (str ''3031-3035''), SrcStr (str ''3038-303C''), SrcStr (str ''3041-3096''),
     SrcStr (str ''309D-309F''), SrcStr (str ''30A1-30FA''), SrcStr (str ''30FC-30FF''),
     SrcStr (str ''3105-312D''), SrcStr (str ''3131-318E''), SrcStr (str ''31A0-31BA''),
     SrcStr (str ''31F0-31FF''), SrcStr (str ''3400-4DB5''), SrcStr (str ''4E00-9FD5''),
     SrcStr (str ''A000-A48C''), SrcStr (str ''A4D0-A4FD''), SrcStr (str ''A500-A60C''),
     SrcStr (str ''A610-A61F''), SrcInt 0xA62A, SrcInt 0xA62B, SrcStr (str ''A640-A66E''),
     SrcStr (str ''A674-A67B''), SrcStr (str ''A67F-A6EF''), SrcStr (str ''A717-A71F''),
     SrcStr (str ''A722-A788''), SrcStr (str ''A78B-A7AE''), SrcStr (str ''A7B0-A7B7''),
     SrcStr (str ''A7F7-A801''), SrcStr (str ''A803-A805''), SrcStr (str ''A807-A80A''),
     SrcStr (str ''A80C-A827''), SrcStr (str ''A840-A873''), SrcStr (str ''A880-A8C3''),
     SrcInt 0xA8C5, SrcStr (str ''A8F2-A8F7''), SrcInt 0xA8FB, SrcInt 0xA8FD,
     SrcStr (str ''A90A-A92A''), SrcStr (str ''A930-A952''), SrcStr (str ''A960-A97C''),
     SrcStr (str ''A980-A9B2''), SrcStr (str ''A9B4-A9BF''), SrcInt 0xA9CF,
     SrcStr (str ''A9E0-A9E4''), SrcStr (str ''A9E6-A9EF''), SrcStr (str ''A9FA-A9FE''),
     SrcStr (str ''AA00-AA36''), SrcStr (str ''AA40-AA4D''), SrcStr (str ''AA60-AA76''),
     SrcInt 0xAA7A, SrcStr (str ''AA7E-AABE''), SrcInt 0xAAC0, SrcInt 0xAAC2,
     SrcStr (str ''AADB-AADD''), SrcStr (str ''AAE0-AAEF''), SrcStr (str ''AAF2-AAF5''),
     SrcStr (str ''AB01-AB06''), SrcStr (str ''AB09-AB0E''), SrcStr (str ''AB11-AB16''),
     SrcStr (str ''AB20-AB26''), SrcStr (str ''AB28-AB2E''), SrcStr (str ''AB30-AB5A''),
     SrcStr (str ''AB5C-AB65''), SrcStr (str ''AB70-ABEA''), SrcStr (str ''AC00-D7A3''),
     SrcStr (str ''D7B0-D7C6''), SrcStr (str ''D7CB-D7FB''), SrcStr (str ''F900-FA6D''),
     SrcStr (str ''FA70-FAD9''), SrcStr (str ''FB00-FB06''), SrcStr (str ''FB13-FB17''),
     SrcStr (str ''FB1D-FB28''), SrcStr (str ''FB2A-FB36''), SrcStr (str ''FB38-FB3C''),
     SrcInt 0xFB3E, SrcInt 0xFB40, SrcInt 0xFB41, SrcInt 0xFB43, SrcInt 0xFB44,
     SrcStr (str ''FB46-FBB1''), SrcStr (str ''FBD3-FD3D''), SrcStr (str ''FD50-FD8F''),
     SrcStr (str ''FD92-FDC7''), SrcStr (str ''FDF0-FDFB''), SrcStr (str ''FE70-FE74''),
     SrcStr (str ''FE76-FEFC''), SrcStr (str ''FF21-FF3A''), SrcStr (str ''FF41-FF5A''),
     SrcStr (str ''FF66-FFBE''), SrcStr (str ''FFC2-FFC7''), SrcStr (str ''FFCA-FFCF''),
     SrcStr (str ''FFD2-FFD7''), SrcStr (str ''FFDA-FFDC''), SrcStr (str ''10000-1000B''),
     SrcStr (str ''1000D-10026''), SrcStr (str ''10028-1003A''), SrcInt 0x1003C,
     SrcInt 0x1003D, SrcStr (str ''1003F-1004D''), SrcStr (str ''10050-1005D''),
     SrcStr (str ''10080-100FA''), SrcStr (str ''10140-10174''), SrcStr (str ''10280-1029C''),
     SrcStr (str ''102A0-102D0''), SrcStr (str ''10300-1031F''), SrcStr (str ''10330-1034A''),
     SrcStr (str ''10350-1037A''), SrcStr (str ''10380-1039D''), SrcStr (str ''103A0-103C3''),
     SrcStr (str ''103C8-103CF''), SrcStr (str ''103D1-103D5''), SrcStr (str ''10400-1049D''),
     SrcStr (str ''104B0-104D3''), SrcStr (str ''104D8-104FB''), SrcStr (str ''10500-10527''),
     SrcStr (str ''10530-10563''), SrcStr (str ''10600-10736''), SrcStr (str ''10740-10755''),
     SrcStr (str ''10760-10767''), SrcStr (str ''10800-10805''), SrcInt 0x10808,
     SrcStr (str ''1080A-10835''), SrcInt 0x10837, SrcInt 0x10838, SrcInt 0x1083C,
     SrcStr (str ''1083F-10855''), SrcStr (str ''10860-10876''), SrcStr (str ''10880-1089E''),
     SrcStr (str ''108E0-108F2''), SrcInt 0x108F4, SrcInt 0x108F5,
     SrcStr (str ''10900-10915''), SrcStr (str ''10920-10939''), SrcStr (str ''10980-109B7''),
     SrcInt 0x109BE, SrcInt 0x109BF, SrcStr (str ''10A00-10A03''), SrcInt 0x10A05,
     SrcInt 0x10A06, SrcStr (str ''10A0C-10A13''), SrcStr (str ''10A15-10A17''),
     SrcStr (str ''10A19-10A33''), SrcStr (str ''10A60-10A7C''), SrcStr (str ''10A80-10A9C''),
     SrcStr (str ''10AC0-10AC7''), SrcStr (str ''10AC9-10AE4''), SrcStr (str ''10B00-10B35''),
     SrcStr (str ''10B40-10B55''), SrcStr (str ''10B60-10B72''), SrcStr (str ''10B80-10B91''),
     SrcStr (str ''10C00-10C48''), SrcStr (str ''10C80-10CB2''), SrcStr (str ''10CC0-10CF2''),
     SrcStr (str ''11000-11045''), SrcStr (str ''11082-110B8''), SrcStr (str ''110D0-110E8''),
     SrcStr (str ''11100-11132''), SrcStr (str ''11150-11172''), SrcInt 0x11176,
     SrcStr (str ''11180-111BF''), SrcStr (str ''111C1-111C4''), SrcInt 0x111DA,
     SrcInt 0x111DC, SrcStr (str ''11200-11211''), SrcStr (str ''11213-11234''),
     SrcInt 0x11237, SrcInt 0x1123E, SrcStr (str ''11280-11286''), SrcInt 0x11288,
     SrcStr (str ''1128A-1128D''), SrcStr (str ''1128F-1129D''), SrcStr (str ''1129F-112A8''),
     SrcStr (str ''112B0-112E8''), SrcStr (str ''11300-11303''), SrcStr (str ''11305-1130C''),
     SrcInt 0x1130F, SrcInt 0x11310, SrcStr (str ''11313-11328''),
     SrcStr (str ''1132A-11330''), SrcInt 0x11332, SrcInt 0x11333,
     SrcStr (str ''11335-11339''), SrcStr (str ''1133D-11344''), SrcInt 0x11347,
     SrcInt 0x11348, SrcInt 0x1134B, SrcInt 0x1134C, SrcInt 0x11350, SrcInt 0x11357,
     SrcStr (str ''1135D-11363''), SrcStr (str ''11400-11441''), SrcStr (str ''11443-11445''),
     SrcStr (str ''11447-1144A''), SrcStr (str ''11480-114C1''), SrcInt 0x114C4,
     SrcInt 0x114C5, SrcInt 0x114C7, SrcStr (str ''11580-115B5''),
     SrcStr (str ''115B8-115BE''), SrcStr (str ''115D8-115DD''), SrcStr (str ''11600-1163E''),
     SrcInt 0x11640, SrcInt 0x11644, SrcStr (str ''11680-116B5''),
     SrcStr (str ''11700-11719''), SrcStr (str ''1171D-1172A''), SrcStr (str ''118A0-118DF''),
     SrcInt 0x118FF, SrcStr (str ''11AC0-11AF8''), SrcStr (str ''11C00-11C08''),
     SrcStr (str ''11C0A-11C36''), SrcStr (str ''11C38-11C3E''), SrcInt 0x11C40,
     SrcStr (str ''11C72-11C8F''), SrcStr (str ''11C92-11CA7''), SrcStr (str ''11CA9-11CB6''),
     SrcStr (str ''12000-12399''), SrcStr (str ''12400-1246E''), SrcStr (str ''12480-12543''),
     SrcStr (str ''13000-1342E''), SrcStr (str ''14400-14646''), SrcStr (str ''16800-16A38''),
     SrcStr (str ''16A40-16A5E''), SrcStr (str ''16AD0-16AED''), SrcStr (str ''16B00-16B36''),
     SrcStr (str ''16B40-16B43''), SrcStr (str ''16B63-16B77''), SrcStr (str ''16B7D-16B8F''),
     SrcStr (str ''16F00-16F44''), SrcStr (str ''16F50-16F7E''), SrcStr (str ''16F93-16F9F''),
     SrcInt 0x16FE0, SrcStr (str ''17000-187EC''), SrcStr (str ''18800-18AF2''),
     SrcInt 0x1B000, SrcInt 0x1B001, SrcStr (str ''1BC00-1BC6A''),
     SrcStr (str ''1BC70-1BC7C''), SrcStr (str ''1BC80-1BC88''), SrcStr (str ''1BC90-1BC99''),
     SrcInt 0x1BC9E, SrcStr (str ''1D400-1D454''), SrcStr (str ''1D456-1D49C''),
     SrcInt 0x1D49E, SrcInt 0x1D49F, SrcInt 0x1D4A2, SrcInt 0x1D4A5, SrcInt 0x1D4A6,
     SrcStr (str ''1D4A9-1D4AC''), SrcStr (str ''1D4AE-1D4B9''), SrcInt 0x1D4BB,
     SrcStr (str ''1D4BD-1D4C3''), SrcStr (str ''1D4C5-1D505''), SrcStr (str ''1D507-1D50A''),
     SrcStr (str ''1D50D-1D514''), SrcStr (str ''1D516-1D51C''), SrcStr (str ''1D51E-1D539''),
     SrcStr (str ''1D53B-1D53E''), SrcStr (str ''1D540-1D544''), SrcInt 0x1D546,
     SrcStr (str ''1D54A-1D550''), SrcStr (str ''1D552-1D6A5''), SrcStr (str ''1D6A8-1D6C0''),
     SrcStr (str ''1D6C2-1D6DA''), SrcStr (str ''1D6DC-1D6FA''), SrcStr (str ''1D6FC-1D714''),
     SrcStr (str ''1D716-1D734''), SrcStr (str ''1D736-1D74E''), SrcStr (str ''1D750-1D76E''),
     SrcStr (str ''1D770-1D788''), SrcStr (str ''1D78A-1D7A8''), SrcStr (str ''1D7AA-1D7C2''),
     SrcStr (str ''1D7C4-1D7CB''), SrcStr (str ''1E000-1E006''), SrcStr (str ''1E008-1E018''),
     SrcStr (str ''1E01B-1E021''), SrcInt 0x1E023, SrcInt 0x1E024,
     SrcStr (str ''1E026-1E02A''), SrcStr (str ''1E800-1E8C4''), SrcStr (str ''1E900-1E943''),
     SrcInt 0x1E947, SrcStr (str ''1EE00-1EE03''), SrcStr (str ''1EE05-1EE1F''),
     SrcInt 0x1EE21, SrcInt 0x1EE22, SrcInt 0x1EE24, SrcInt 0x1EE27,
     SrcStr (str ''1EE29-1EE32''), SrcStr (str ''1EE34-1EE37''), SrcInt 0x1EE39,
     SrcInt 0x1EE3B, SrcInt 0x1EE42, SrcInt 0x1EE47, SrcInt 0x1EE49, SrcInt 0x1EE4B,
     SrcStr (str ''1EE4D-1EE4F''), SrcInt 0x1EE51, SrcInt 0x1EE52, SrcInt 0x1EE54,
     SrcInt 0x1EE57, SrcInt 0x1EE59, SrcInt 0x1EE5B, SrcInt 0x1EE5D, SrcInt 0x1EE5F,
     SrcInt 0x1EE61, SrcInt 0x1EE62, SrcInt 0x1EE64, SrcStr (str ''1EE67-1EE6A''),
     SrcStr (str ''1EE6C-1EE72''), SrcStr (str ''1EE74-1EE77''), SrcStr (str ''1EE79-1EE7C''),
     SrcInt 0x1EE7E, SrcStr (str ''1EE80-1EE89''), SrcStr (str ''1EE8B-1EE9B''),
     SrcStr (str ''1EEA1-1EEA3''), SrcStr (str ''1EEA5-1EEA9''), SrcStr (str ''1EEAB-1EEBB''),
     SrcStr (str ''1F130-1F149''), SrcStr (str ''1F150-1F169''), SrcStr (str ''1F170-1F189''),
     SrcStr (str ''20000-2A6D6''), SrcStr (str ''2A700-2B734''), SrcStr (str ''2B740-2B81D''),
     SrcStr (str ''2B820-2CEA1''), SrcStr (str ''2F800-2FA1D'')]"

definition Any_src :: "src list" where
  "Any_src =
    [SrcStr (str ''0000-10FFFF'')]"

definition Default_Ignorable_Code_Point_src :: "src list" where
  "Default_Ignorable_Code_Point_src =
    [SrcInt 0x00AD, SrcInt 0x034F, SrcInt 0x061C, SrcInt 0x115F, SrcInt 0x1160, SrcInt 0x17B4,
     SrcInt 0x17B5, SrcStr (str ''180B-180E''), SrcStr (str ''200B-200F''),
     SrcStr (str ''202A-202E''), SrcStr (str ''2060-206F''), SrcInt 0x3164,
     SrcStr (str ''FE00-FE0F''), SrcInt 0xFEFF, SrcInt 0xFFA0, SrcStr (str ''FFF0-FFF8''),
     SrcStr (str ''1BCA0-1BCA3''), SrcStr (str ''1D173-1D17A''), SrcStr (str ''E0000-E0FFF'')]"

definition Lowercase_src :: "src list" where
  "Lowercase_src =
    [SrcStr (str ''0061-007A''), SrcInt 0x00AA, SrcInt 0x00B5, SrcInt 0x00BA,
     SrcStr (str ''00DF-00F6''), SrcStr (str ''00F8-00FF''), SrcInt 0x0101, SrcInt 0x0103,
     SrcInt 0x0105, SrcInt 0x0107, SrcInt 0x0109, SrcInt 0x010B, SrcInt 0x010D, SrcInt 0x010F,
     SrcInt 0x0111, SrcInt 0x0113, SrcInt 0x0115, SrcInt 0x0117, SrcInt 0x0119, SrcInt 0x011B,
     SrcInt 0x011D, SrcInt 0x011F, SrcInt 0x0121, SrcInt 0x0123, SrcInt 0x0125, SrcInt 0x0127,
     SrcInt 0x0129, SrcInt 0x012B, SrcInt 0x012D, SrcInt 0x012F, SrcInt 0x0131, SrcInt 0x0133,
     SrcInt 0x0135, SrcInt 0x0137, SrcInt 0x0138, SrcInt 0x013A, SrcInt 0x013C, SrcInt 0x013E,
     SrcInt 0x0140, SrcInt 0x0142, SrcInt 0x0144, SrcInt 0x0146, SrcInt 0x0148, SrcInt 0x0149,
     SrcInt 0x014B, SrcInt 0x014D, SrcInt 0x014F, SrcInt 0x0151, SrcInt 0x0153, SrcInt 0x0155,
     SrcInt 0x0157, SrcInt 0x0159, SrcInt 0x015B, SrcInt 0x015D, SrcInt 0x015F, SrcInt 0x0161,
     SrcInt 0x0163, SrcInt 0x0165, SrcInt 0x0167, SrcInt 0x0169, SrcInt 0x016B, SrcInt 0x016D,
     SrcInt 0x016F, SrcInt 0x0171, SrcInt 0x0173, SrcInt 0x0175, SrcInt 0x0177, SrcInt 0x017A,
     SrcInt 0x017C, SrcStr (str ''017E-0180''), SrcInt 0x0183, SrcInt 0x0185, SrcInt 0x0188,
     SrcInt 0x018C, SrcInt 0x018D, SrcInt 0x0192, SrcInt 0x0195, SrcStr (str ''0199-019B''),
     SrcInt 0x019E, SrcInt 0x01A1, SrcInt 0x01A3, SrcInt 0x01A5, SrcInt 0x01A8, SrcInt 0x01AA,
     SrcInt 0x01AB, SrcInt 0x01AD, SrcInt 0x01B0, SrcInt 0x01B4, SrcInt 0x01B6, SrcInt 0x01B9,
     SrcInt 0x01BA, SrcStr (str ''01BD-01BF''), SrcInt 0x01C6, SrcInt 0x01C9, SrcInt 0x01CC,
     SrcInt 0x01CE, SrcInt 0x01D0, SrcInt 0x01D2, SrcInt 0x01D4, SrcInt 0x01D6, SrcInt 0x01D8,
     SrcInt 0x01DA, SrcInt 0x01DC, SrcInt 0x01DD, SrcInt 0x01DF, SrcInt 0x01E1, SrcInt 0x01E3,
     SrcInt 0x01E5, SrcInt 0x01E7, SrcInt 0x01E9, SrcInt 0x01EB, SrcInt 0x01ED, SrcInt 0x01EF,
     SrcInt 0x01F0, SrcInt 0x01F3, SrcInt 0x01F5, SrcInt 0x01F9, SrcInt 0x01FB, SrcInt 0x01FD,
     SrcInt 0x01FF, SrcInt 0x0201, SrcInt 0x0203, SrcInt 0x0205, SrcInt 0x0207, SrcInt 0x0209,
     SrcInt 0x020B, SrcInt 0x020D, SrcInt 0x020F, SrcInt 0x0211, SrcInt 0x0213, SrcInt 0x0215,
     SrcInt 0x0217, SrcInt 0x0219, SrcInt 0x021B, SrcInt 0x021D, SrcInt 0x021F, SrcInt 0x0221,
     SrcInt 0x0223, SrcInt 0x0225, SrcInt 0x0227, SrcInt 0x0229, SrcInt 0x022B, SrcInt 0x022D,
     SrcInt 0x022F, SrcInt 0x0231, SrcStr (str ''0233-0239''), SrcInt 0x023C, SrcInt 0x023F,
     SrcInt 0x0240, SrcInt 0x0242, SrcInt 0x0247, SrcInt 0x0249, SrcInt 0x024B, SrcInt 0x024D,
     SrcStr (str ''024F-0293''), SrcStr (str ''0295-02B8''), SrcInt 0x02C0, SrcInt 0x02C1,
     SrcStr (str ''02E0-02E4''), SrcInt 0x0345, SrcInt 0x0371, SrcInt 0x0373, SrcInt 0x0377,
     SrcStr (str ''037A-037D''), SrcInt 0x0390, SrcStr (str ''03AC-03CE''), SrcInt 0x03D0,
     SrcInt 0x03D1, SrcStr (str ''03D5-03D7''), SrcInt 0x03D9, SrcInt 0x03DB, SrcInt 0x03DD,
     SrcInt 0x03DF, SrcInt 0x03E1, SrcInt 0x03E3, SrcInt 0x03E5, SrcInt 0x03E7, SrcInt 0x03E9,
     SrcInt 0x03EB, SrcInt 0x03ED, SrcStr (str ''03EF-03F3''), SrcInt 0x03F5, SrcInt 0x03F8,
     SrcInt 0x03FB, SrcInt 0x03FC, SrcStr (str ''0430-045F''), SrcInt 0x0461, SrcInt 0x0463,
     SrcInt 0x0465, SrcInt 0x0467, SrcInt 0x0469, SrcInt 0x046B, SrcInt 0x046D, SrcInt 0x046F,
     SrcInt 0x0471, SrcInt 0x0473, SrcInt 0x0475, SrcInt 0x0477, SrcInt 0x0479, SrcInt 0x047B,
     SrcInt 0x047D, SrcInt 0x047F, SrcInt 0x0481, SrcInt 0x048B, SrcInt 0x048D, SrcInt 0x048F,
     SrcInt 0x0491, SrcInt 0x0493, SrcInt 0x0495, SrcInt 0x0497, SrcInt 0x0499, SrcInt 0x049B,
     SrcInt 0x049D, SrcInt 0x049F, SrcInt 0x04A1, SrcInt 0x04A3, SrcInt 0x04A5, SrcInt 0x04A7,
     SrcInt 0x04A9, SrcInt 0x04AB, SrcInt 0x04AD, SrcInt 0x04AF, SrcInt 0x04B1, SrcInt 0x04B3,
     SrcInt 0x04B5, SrcInt 0x04B7, SrcInt 0x04B9, SrcInt 0x04BB, SrcInt 0x04BD, SrcInt 0x04BF,
     SrcInt 0x04C2, SrcInt 0x04C4, SrcInt 0x04C6, SrcInt 0x04C8, SrcInt 0x04CA, SrcInt 0x04CC,
     SrcInt 0x04CE, SrcInt 0x04CF, SrcInt 0x04D1, SrcInt 0x04D3, SrcInt 0x04D5, SrcInt 0x04D7,
     SrcInt 0x04D9, SrcInt 0x04DB, SrcInt 0x04DD, SrcInt 0x04DF, SrcInt 0x04E1, SrcInt 0x04E3,
     SrcInt 0x04E5, SrcInt 0x04E7, SrcInt 0x04E9, SrcInt 0x04EB, SrcInt 0x04ED, SrcInt 0x04EF,
     SrcInt 0x04F1, SrcInt 0x04F3, SrcInt 0x04F5, SrcInt 0x04F7, SrcInt 0x04F9, SrcInt 0x04FB,
     SrcInt 0x04FD, SrcInt 0x04FF, SrcInt 0x0501, SrcInt 0x0503, SrcInt 0x0505, SrcInt 0x0507,
     SrcInt 0x0509, SrcInt 0x050B, SrcInt 0x050D, SrcInt 0x050F, SrcInt 0x0511, SrcInt 0x0513,
     SrcInt 0x0515, SrcInt 0x0517, SrcInt 0x0519, SrcInt 0x051B, SrcInt 0x051D, SrcInt 0x051F,
     SrcInt 0x0521, SrcInt 0x0523, SrcInt 0x0525, SrcInt 0x0527, SrcInt 0x0529, SrcInt 0x052B,
     SrcInt 0x052D, SrcInt 0x052F, SrcStr (str ''0561-0587''), SrcStr (str ''13F8-13FD''),
     SrcStr (str ''1C80-1C88''), SrcStr (str ''1D00-1DBF''), SrcInt 0x1E01, SrcInt 0x1E03,
     SrcInt 0x1E05, SrcInt 0x1E07, SrcInt 0x1E09, SrcInt 0x1E0B, SrcInt 0x1E0D, SrcInt 0x1E0F,
     SrcInt 0x1E11, SrcInt 0x1E13, SrcInt 0x1E15, SrcInt 0x1E17, SrcInt 0x1E19, SrcInt 0x1E1B,
     SrcInt 0x1E1D, SrcInt 0x1E1F, SrcInt 0x1E21, SrcInt 0x1E23, SrcInt 0x1E25, SrcInt 0x1E27,
     SrcInt 0x1E29, SrcInt 0x1E2B, SrcInt 0x1E2D, SrcInt 0x1E2F, SrcInt 0x1E31, SrcInt 0x1E33,
     SrcInt 0x1E35, SrcInt 0x1E37, SrcInt 0x1E39, SrcInt 0x1E3B, SrcInt 0x1E3D, SrcInt 0x1E3F,
     SrcInt 0x1E41, SrcInt 0x1E43, SrcInt 0x1E45, SrcInt 0x1E47, SrcInt 0x1E49, SrcInt 0x1E4B,
     SrcInt 0x1E4D, SrcInt 0x1E4F, SrcInt 0x1E51, SrcInt 0x1E53, SrcInt 0x1E55, SrcInt 0x1E57,
     SrcInt 0x1E59, SrcInt 0x1E5B, SrcInt 0x1E5D, SrcInt 0x1E5F, SrcInt 0x1E61, SrcInt 0x1E63,
     SrcInt 0x1E65, SrcInt 0x1E67, SrcInt 0x1E69, SrcInt 0x1E6B, SrcInt 0x1E6D, SrcInt 0x1E6F,
     SrcInt 0x1E71, SrcInt 0x1E73, SrcInt 0x1E75, SrcInt 0x1E77, SrcInt 0x1E79, SrcInt 0x1E7B,
     SrcInt 0x1E7D, SrcInt 0x1E7F, SrcInt 0x1E81, SrcInt 0x1E83, SrcInt 0x1E85, SrcInt 0x1E87,
     SrcInt 0x1E89, SrcInt 0x1E8B, SrcInt 0x1E8D, SrcInt 0x1E8F, SrcInt 0x1E91, SrcInt 0x1E93,
     SrcStr (str ''1E95-1E9D''), SrcInt 0x1E9F, SrcInt 0x1EA1, SrcInt 0x1EA3, SrcInt 0x1EA5,
     SrcInt 0x1EA7, SrcInt 0x1EA9, SrcInt 0x1EAB, SrcInt 0x1EAD, SrcInt 0x1EAF, SrcInt 0x1EB1,
     SrcInt 0x1EB3, SrcInt 0x1EB5, SrcInt 0x1EB7, SrcInt 0x1EB9, SrcInt 0x1EBB, SrcInt 0x1EBD,
     SrcInt 0x1EBF, SrcInt 0x1EC1, SrcInt 0x1EC3, SrcInt 0x1EC5, SrcInt 0x1EC7, SrcInt 0x1EC9,
     SrcInt 0x1ECB, SrcInt 0x1ECD, SrcInt 0x1ECF, SrcInt 0x1ED1, SrcInt 0x1ED3, SrcInt 0x1ED5,
     SrcInt 0x1ED7, SrcInt 0x1ED9, SrcInt 0x1EDB, SrcInt 0x1EDD, SrcInt 0x1EDF, SrcInt 0x1EE1,
     SrcInt 0x1EE3, SrcInt 0x1EE5, SrcInt 0x1EE7, SrcInt 0x1EE9, SrcInt 0x1EEB, SrcInt 0x1EED,
     SrcInt 0x1EEF, SrcInt 0x1EF1, SrcInt 0x1EF3, SrcInt 0x1EF5, SrcInt 0x1EF7, SrcInt 0x1EF9,
     SrcInt 0x1EFB, SrcInt 0x1EFD, SrcStr (str ''1EFF-1F07''), SrcStr (str ''1F10-1F15''),
     SrcStr (str ''1F20-1F27''), SrcStr (str ''1F30-1F37''), SrcStr (str ''1F40-1F45''),
     SrcStr (str ''1F50-1F57''), SrcStr (str ''1F60-1F67''), SrcStr (str ''1F70-1F7D''),
     SrcStr (str ''1F80-1F87''), SrcStr (str ''1F90-1F97''), SrcStr (str ''1FA0-1FA7''),
     SrcStr (str ''1FB0-1FB4''), SrcInt 0x1FB6, SrcInt 0x1FB7, SrcInt 0x1FBE,
     SrcStr (str ''1FC2-1FC4''), SrcInt 0x1FC6, SrcInt 0x1FC7, SrcStr (str ''1FD0-1FD3''),
     SrcInt 0x1FD6, SrcInt 0x1FD7, SrcStr (str ''1FE0-1FE7''), SrcStr (str ''1FF2-1FF4''),
     SrcInt 0x1FF6, SrcInt 0x1FF7, SrcInt 0x2071, SrcInt 0x207F, SrcStr (str ''2090-209C''),
     SrcInt 0x210A, SrcInt 0x210E, SrcInt 0x210F, SrcInt 0x2113, SrcInt 0x212F, SrcInt 0x2134,
     SrcInt 0x2139, SrcInt 0x213C, SrcInt 0x213D, SrcStr (str ''2146-2149''), SrcInt 0x214E,
     SrcStr (str ''2170-217F''), SrcInt 0x2184, SrcStr (str ''24D0-24E9''),
     SrcStr (str ''2C30-2C5E''), SrcInt 0x2C61, SrcInt 0x2C65, SrcInt 0x2C66, SrcInt 0x2C68,
     SrcInt 0x2C6A, SrcInt 0x2C6C, SrcInt 0x2C71, SrcInt 0x2C73, SrcInt 0x2C74,
     SrcStr (str ''2C76-2C7D''), SrcInt 0x2C81, SrcInt 0x2C83, SrcInt 0x2C85, SrcInt 0x2C87,
     SrcInt 0x2C89, SrcInt 0x2C8B, SrcInt 0x2C8D, SrcInt 0x2C8F, SrcInt 0x2C91, SrcInt 0x2C93,
     SrcInt 0x2C95, SrcInt 0x2C97, SrcInt 0x2C99, SrcInt 0x2C9B, SrcInt 0x2C9D, SrcInt 0x2C9F,
     SrcInt 0x2CA1, SrcInt 0x2CA3, SrcInt 0x2CA5, SrcInt 0x2CA7, SrcInt 0x2CA9, SrcInt 0x2CAB,
     SrcInt 0x2CAD, SrcInt 0x2CAF, SrcInt 0x2CB1, SrcInt 0x2CB3, SrcInt 0x2CB5, SrcInt 0x2CB7,
     SrcInt 0x2CB9, SrcInt 0x2CBB, SrcInt 0x2CBD, SrcInt 0x2CBF, SrcInt 0x2CC1, SrcInt 0x2CC3,
     SrcInt 0x2CC5, SrcInt 0x2CC7, SrcInt 0x2CC9, SrcInt 0x2CCB, SrcInt 0x2CCD, SrcInt 0x2CCF,
     SrcInt 0x2CD1, SrcInt 0x2CD3, SrcInt 0x2CD5, SrcInt 0x2CD7, SrcInt 0x2CD9, SrcInt 0x2CDB,
     SrcInt 0x2CDD, SrcInt 0x2CDF, SrcInt 0x2CE1, SrcInt 0x2CE3, SrcInt 0x2CE4, SrcInt 0x2CEC,
     SrcInt 0x2CEE, SrcInt 0x2CF3, SrcStr (str ''2D00-2D25''), SrcInt 0x2D27, SrcInt 0x2D2D,
     SrcInt 0xA641, SrcInt 0xA643, SrcInt 0xA645, SrcInt 0xA647, SrcInt 0xA649, SrcInt 0xA64B,
     SrcInt 0xA64D, SrcInt 0xA64F, SrcInt 0xA651, SrcInt 0xA653, SrcInt 0xA655, SrcInt 0xA657,
     SrcInt 0xA659, SrcInt 0xA65B, SrcInt 0xA65D, SrcInt 0xA65F, SrcInt 0xA661, SrcInt 0xA663,
     SrcInt 0xA665, SrcInt 0xA667, SrcInt 0xA669, SrcInt 0xA66B, SrcInt 0xA66D, SrcInt 0xA681,
     SrcInt 0xA683, SrcInt 0xA685, SrcInt 0xA687, SrcInt 0xA689, SrcInt 0xA68B, SrcInt 0xA68D,
     SrcInt 0xA68F, SrcInt 0xA691, SrcInt 0xA693, SrcInt 0xA695, SrcInt 0xA697, SrcInt 0xA699,
     SrcStr (str ''A69B-A69D''), SrcInt 0xA723, SrcInt 0xA725, SrcInt 0xA727, SrcInt 0xA729,
     SrcInt 0xA72B, SrcInt 0xA72D, SrcStr (str ''A72F-A731''), SrcInt 0xA733, SrcInt 0xA735,
     SrcInt 0xA737, SrcInt 0xA739, SrcInt 0xA73B, SrcInt 0xA73D, SrcInt 0xA73F, SrcInt 0xA741,
     SrcInt 0xA743, SrcInt 0xA745, SrcInt 0xA747, SrcInt 0xA749, SrcInt 0xA74B, SrcInt 0xA74D,
     SrcInt 0xA74F, SrcInt 0xA751, SrcInt 0xA753, SrcInt 0xA755, SrcInt 0xA757, SrcInt 0xA759,
     SrcInt 0xA75B, SrcInt 0xA75D, SrcInt 0xA75F, SrcInt 0xA761, SrcInt 0xA763, SrcInt 0xA765,
     SrcInt 0xA767, SrcInt 0xA769, SrcInt 0xA76B, SrcInt 0xA76D, SrcStr (str ''A76F-A778''),
     SrcInt 0xA77A, SrcInt 0xA77C, SrcInt 0xA77F, SrcInt 0xA781, SrcInt 0xA783, SrcInt 0xA785,
     SrcInt 0xA787, SrcInt 0xA78C, SrcInt 0xA78E, SrcInt 0xA791, SrcStr (str ''A793-A795''),
     SrcInt 0xA797, SrcInt 0xA799, SrcInt 0xA79B, SrcInt 0xA79D, SrcInt 0xA79F, SrcInt 0xA7A1,
     SrcInt 0xA7A3, SrcInt 0xA7A5, SrcInt 0xA7A7, SrcInt 0xA7A9, SrcInt 0xA7B5, SrcInt 0xA7B7,
     SrcStr (str ''A7F8-A7FA''), SrcStr (str ''AB30-AB5A''), SrcStr (str ''AB5C-AB65''),
     SrcStr (str ''AB70-ABBF''), SrcStr (str ''FB00-FB06''), SrcStr (str ''FB13-FB17''),
     SrcStr (str ''FF41-FF5A''), SrcStr (str ''10428-1044F''), SrcStr (str ''104D8-104FB''),
     SrcStr (str ''10CC0-10CF2''), SrcStr (str ''118C0-118DF''), SrcStr (str ''1D41A-1D433''),
     SrcStr (str ''1D44E-1D454''), SrcStr (str ''1D456-1D467''), SrcStr (str ''1D482-1D49B''),
     SrcStr (str ''1D4B6-1D4B9''), SrcInt 0x1D4BB, SrcStr (str ''1D4BD-1D4C3''),
     SrcStr (str ''1D4C5-1D4CF''), SrcStr (str ''1D4EA-1D503''), SrcStr (str ''1D51E-1D537''),
     SrcStr (str ''1D552-1D56B''), SrcStr (str ''1D586-1D59F''), SrcStr (str ''1D5BA-1D5D3''),
     SrcStr (str ''1D5EE-1D607''), SrcStr (str ''1D622-1D63B''), SrcStr (str ''1D656-1D66F''),
     SrcStr (str ''1D68A-1D6A5''), SrcStr (str ''1D6C2-1D6DA''), SrcStr (str ''1D6DC-1D6E1''),
     SrcStr (str ''1D6FC-1D714''), SrcStr (str ''1D716-1D71B''), SrcStr (str ''1D736-1D74E''),
     SrcStr (str ''1D750-1D755''), SrcStr (str ''1D770-1D788''), SrcStr (str ''1D78A-1D78F''),
     SrcStr (str ''1D7AA-1D7C2''), SrcStr (str ''1D7C4-1D7C9''), SrcInt 0x1D7CB,
     SrcStr (str ''1E922-1E943'')]"

definition Noncharacter_Code_Point_src :: "src list" where
  "Noncharacter_Code_Point_src =
    [SrcStr (str ''FDD0-FDEF''), SrcInt 0xFFFE, SrcInt 0xFFFF, SrcInt 0x1FFFE, SrcInt 0x1FFFF,
     SrcInt 0x2FFFE, SrcInt 0x2FFFF, SrcInt 0x3FFFE, SrcInt 0x3FFFF, SrcInt 0x4FFFE,
     SrcInt 0x4FFFF, SrcInt 0x5FFFE, SrcInt 0x5FFFF, SrcInt 0x6FFFE, SrcInt 0x6FFFF,
     SrcInt 0x7FFFE, SrcInt 0x7FFFF, SrcInt 0x8FFFE, SrcInt 0x8FFFF, SrcInt 0x9FFFE,
     SrcInt 0x9FFFF, SrcInt 0xAFFFE, SrcInt 0xAFFFF, SrcInt 0xBFFFE, SrcInt 0xBFFFF,
     SrcInt 0xCFFFE, SrcInt 0xCFFFF, SrcInt 0xDFFFE, SrcInt 0xDFFFF, SrcInt 0xEFFFE,
     SrcInt 0xEFFFF, SrcInt 0xFFFFE, SrcInt 0xFFFFF, SrcInt 0x10FFFE, SrcInt 0x10FFFF]"

definition Uppercase_src :: "src list" where
  "Uppercase_src =
    [SrcStr (str ''0041-005A''), SrcStr (str ''00C0-00D6''), SrcStr (str ''00D8-00DE''),
     SrcInt 0x0100, SrcInt 0x0102, SrcInt 0x0104, SrcInt 0x0106, SrcInt 0x0108, SrcInt 0x010A,
     SrcInt 0x010C, SrcInt 0x010E, SrcInt 0x0110, SrcInt 0x0112, SrcInt 0x0114, SrcInt 0x0116,
     SrcInt 0x0118, SrcInt 0x011A, SrcInt 0x011C, SrcInt 0x011E, SrcInt 0x0120, SrcInt 0x0122,
     SrcInt 0x0124, SrcInt 0x0126, SrcInt 0x0128, SrcInt 0x012A, SrcInt 0x012C, SrcInt 0x012E,
     SrcInt 0x0130, SrcInt 0x0132, SrcInt 0x0134, SrcInt 0x0136, SrcInt 0x0139, SrcInt 0x013B,
     SrcInt 0x013D, SrcInt 0x013F, SrcInt 0x0141, SrcInt 0x0143, SrcInt 0x0145, SrcInt 0x0147,
     SrcInt 0x014A, SrcInt 0x014C, SrcInt 0x014E, SrcInt 0x0150, SrcInt 0x0152, SrcInt 0x0154,
     SrcInt 0x0156, SrcInt 0x0158, SrcInt 0x015A, SrcInt 0x015C, SrcInt 0x015E, SrcInt 0x0160,
     SrcInt 0x0162, SrcInt 0x0164, SrcInt 0x0166, SrcInt 0x0168, SrcInt 0x016A, SrcInt 0x016C,
     SrcInt 0x016E, SrcInt 0x0170, SrcInt 0x0172, SrcInt 0x0174, SrcInt 0x0176, SrcInt 0x0178,
     SrcInt 0x0179, SrcInt 0x017B, SrcInt 0x017D, SrcInt 0x0181, SrcInt 0x0182, SrcInt 0x0184,
     SrcInt 0x0186, SrcInt 0x0187, SrcStr (str ''0189-018B''), SrcStr (str ''018E-0191''),
     SrcInt 0x0193, SrcInt 0x0194, SrcStr (str ''0196-0198''), SrcInt 0x019C, SrcInt 0x019D,
     SrcInt 0x019F, SrcInt 0x01A0, SrcInt 0x01A2, SrcInt 0x01A4, SrcInt 0x01A6, SrcInt 0x01A7,
     SrcInt 0x01A9, SrcInt 0x01AC, SrcInt 0x01AE, SrcInt 0x01AF, SrcStr (str ''01B1-01B3''),
     SrcInt 0x01B5, SrcInt 0x01B7, SrcInt 0x01B8, SrcInt 0x01BC, SrcInt 0x01C4, SrcInt 0x01C7,
     SrcInt 0x01CA, SrcInt 0x01CD, SrcInt 0x01CF, SrcInt 0x01D1, SrcInt 0x01D3, SrcInt 0x01D5,
     SrcInt 0x01D7, SrcInt 0x01D9, SrcInt 0x01DB, SrcInt 0x01DE, SrcInt 0x01E0, SrcInt 0x01E2,
     SrcInt 0x01E4, SrcInt 0x01E6, SrcInt 0x01E8, SrcInt 0x01EA, SrcInt 0x01EC, SrcInt 0x01EE,
     SrcInt 0x01F1, SrcInt 0x01F4, SrcStr (str ''01F6-01F8''), SrcInt 0x01FA, SrcInt 0x01FC,
     SrcInt 0x01FE, SrcInt 0x0200, SrcInt 0x0202, SrcInt 0x0204, SrcInt 0x0206, SrcInt 0x0208,
     SrcInt 0x020A, SrcInt 0x020C, SrcInt 0x020E, SrcInt 0x0210, SrcInt 0x0212, SrcInt 0x0214,
     SrcInt 0x0216, SrcInt 0x0218, SrcInt 0x021A, SrcInt 0x021C, SrcInt 0x021E, SrcInt 0x0220,
     SrcInt 0x0222, SrcInt 0x0224, SrcInt 0x0226, SrcInt 0x0228, SrcInt 0x022A, SrcInt 0x022C,
     SrcInt 0x022E, SrcInt 0x0230, SrcInt 0x0232, SrcInt 0x023A, SrcInt 0x023B, SrcInt 0x023D,
     SrcInt 0x023E, SrcInt 0x0241, SrcStr (str ''0243-0246''), SrcInt 0x0248, SrcInt 0x024A,
     SrcInt 0x024C, SrcInt 0x024E, SrcInt 0x0370, SrcInt 0x0372, SrcInt 0x0376, SrcInt 0x037F,
     SrcInt 0x0386, SrcStr (str ''0388-038A''), SrcInt 0x038C, SrcInt 0x038E, SrcInt 0x038F,
     SrcStr (str ''0391-03A1''), SrcStr (str ''03A3-03AB''), SrcInt 0x03CF,
     SrcStr (str ''03D2-03D4''), SrcInt 0x03D8, SrcInt 0x03DA, SrcInt 0x03DC, SrcInt 0x03DE,
     SrcInt 0x03E0, SrcInt 0x03E2, SrcInt 0x03E4, SrcInt 0x03E6, SrcInt 0x03E8, SrcInt 0x03EA,
     SrcInt 0x03EC, SrcInt 0x03EE, SrcInt 0x03F4, SrcInt 0x03F7, SrcInt 0x03F9, SrcInt 0x03FA,
     SrcStr (str ''03FD-042F''), SrcInt 0x0460, SrcInt 0x0462, SrcInt 0x0464, SrcInt 0x0466,
     SrcInt 0x0468, SrcInt 0x046A, SrcInt 0x046C, SrcInt 0x046E, SrcInt 0x0470, SrcInt 0x0472,
     SrcInt 0x0474, SrcInt 0x0476, SrcInt 0x0478, SrcInt 0x047A, SrcInt 0x047C, SrcInt 0x047E,
     SrcInt 0x0480, SrcInt 0x048A, SrcInt 0x048C, SrcInt 0x048E, SrcInt 0x0490, SrcInt 0x0492,
     SrcInt 0x0494, SrcInt 0x0496, SrcInt 0x0498, SrcInt 0x049A, SrcInt 0x049C, SrcInt 0x049E,
     SrcInt 0x04A0, SrcInt 0x04A2, SrcInt 0x04A4, SrcInt 0x04A6, SrcInt 0x04A8, SrcInt 0x04AA,
     SrcInt 0x04AC, SrcInt 0x04AE, SrcInt 0x04B0, SrcInt 0x04B2, SrcInt 0x04B4, SrcInt 0x04B6,
     SrcInt 0x04B8, SrcInt 0x04BA, SrcInt 0x04BC, SrcInt 0x04BE, SrcInt 0x04C0, SrcInt 0x04C1,
     SrcInt 0x04C3, SrcInt 0x04C5, SrcInt 0x04C7, SrcInt 0x04C9, SrcInt 0x04CB, SrcInt 0x04CD,
     SrcInt 0x04D0, SrcInt 0x04D2, SrcInt 0x04D4, SrcInt 0x04D6, SrcInt 0x04D8, SrcInt 0x04DA,
     SrcInt 0x04DC, SrcInt 0x04DE, SrcInt 0x04E0, SrcInt 0x04E2, SrcInt 0x04E4, SrcInt 0x04E6,
     SrcInt 0x04E8, SrcInt 0x04EA, SrcInt 0x04EC, SrcInt 0x04EE, SrcInt 0x04F0, SrcInt 0x04F2,
     SrcInt 0x04F4, SrcInt 0x04F6, SrcInt 0x04F8, SrcInt 0x04FA, SrcInt 0x04FC, SrcInt 0x04FE,
     SrcInt 0x0500, SrcInt 0x0502, SrcInt 0x0504, SrcInt 0x0506, SrcInt 0x0508, SrcInt 0x050A,
     SrcInt 0x050C, SrcInt 0x050E, SrcInt 0x0510, SrcInt 0x0512, SrcInt 0x0514, SrcInt 0x0516,
     SrcInt 0x0518, SrcInt 0x051A, SrcInt 0x051C, SrcInt 0x051E, SrcInt 0x0520, SrcInt 0x0522,
     SrcInt 0x0524, SrcInt 0x0526, SrcInt 0x0528, SrcInt 0x052A, SrcInt 0x052C, SrcInt 0x052E,
     SrcStr (str ''0531-0556''), SrcStr (str ''10A0-10C5''), SrcInt 0x10C7, SrcInt 0x10CD,
     SrcStr (str ''13A0-13F5''), SrcInt 0x1E00, SrcInt 0x1E02, SrcInt 0x1E04, SrcInt 0x1E06,
     SrcInt 0x1E08, SrcInt 0x1E0A, SrcInt 0x1E0C, SrcInt 0x1E0E, SrcInt 0x1E10, SrcInt 0x1E12,
     SrcInt 0x1E14, SrcInt 0x1E16, SrcInt 0x1E18, SrcInt 0x1E1A, SrcInt 0x1E1C, SrcInt 0x1E1E,
     SrcInt 0x1E20, SrcInt 0x1E22, SrcInt 0x1E24, SrcInt 0x1E26, SrcInt 0x1E28, SrcInt 0x1E2A,
     SrcInt 0x1E2C, SrcInt 0x1E2E, SrcInt 0x1E30, SrcInt 0x1E32, SrcInt 0x1E34, SrcInt 0x1E36,
     SrcInt 0x1E38, SrcInt 0x1E3A, SrcInt 0x1E3C, SrcInt 0x1E3E, SrcInt 0x1E40, SrcInt 0x1E42,
     SrcInt 0x1E44, SrcInt 0x1E46, SrcInt 0x1E48, SrcInt 0x1E4A, SrcInt 0x1E4C, SrcInt 0x1E4E,
     SrcInt 0x1E50, SrcInt 0x1E52, SrcInt 0x1E54, SrcInt 0x1E56, SrcInt 0x1E58, SrcInt 0x1E5A,
     SrcInt 0x1E5C, SrcInt 0x1E5E, SrcInt 0x1E60, SrcInt 0x1E62, SrcInt 0x1E64, SrcInt 0x1E66,
     SrcInt 0x1E68, SrcInt 0x1E6A, SrcInt 0x1E6C, SrcInt 0x1E6E, SrcInt 0x1E70, SrcInt 0x1E72,
     SrcInt 0x1E74, SrcInt 0x1E76, SrcInt 0x1E78, SrcInt 0x1E7A, SrcInt 0x1E7C, SrcInt 0x1E7E,
     SrcInt 0x1E80, SrcInt 0x1E82, SrcInt 0x1E84, SrcInt 0x1E86, SrcInt 0x1E88, SrcInt 0x1E8A,
     SrcInt 0x1E8C, SrcInt 0x1E8E, SrcInt 0x1E90, SrcInt 0x1E92, SrcInt 0x1E94, SrcInt 0x1E9E,
     SrcInt 0x1EA0, SrcInt 0x1EA2, SrcInt 0x1EA4, SrcInt 0x1EA6, SrcInt 0x1EA8, SrcInt 0x1EAA,
     SrcInt 0x1EAC, SrcInt 0x1EAE, SrcInt 0x1EB0, SrcInt 0x1EB2, SrcInt 0x1EB4, SrcInt 0x1EB6,
     SrcInt 0x1EB8, SrcInt 0x1EBA, SrcInt 0x1EBC, SrcInt 0x1EBE, SrcInt 0x1EC0, SrcInt 0x1EC2,
     SrcInt 0x1EC4, SrcInt 0x1EC6, SrcInt 0x1EC8, SrcInt 0x1ECA, SrcInt 0x1ECC, SrcInt 0x1ECE,
     SrcInt 0x1ED0, SrcInt 0x1ED2, SrcInt 0x1ED4, SrcInt 0x1ED6, SrcInt 0x1ED8, SrcInt 0x1EDA,
     SrcInt 0x1EDC, SrcInt 0x1EDE, SrcInt 0x1EE0, SrcInt 0x1EE2, SrcInt 0x1EE4, SrcInt 0x1EE6,
     SrcInt 0x1EE8, SrcInt 0x1EEA, SrcInt 0x1EEC, SrcInt 0x1EEE, SrcInt 0x1EF0, SrcInt 0x1EF2,
     SrcInt 0x1EF4, SrcInt 0x1EF6, SrcInt 0x1EF8, SrcInt 0x1EFA, SrcInt 0x1EFC, SrcInt 0x1EFE,
     SrcStr (str ''1F08-1F0F''), SrcStr (str ''1F18-1F1D''), SrcStr (str ''1F28-1F2F''),
     SrcStr (str ''1F38-1F3F''), SrcStr (str ''1F48-1F4D''), SrcInt 0x1F59, SrcInt 0x1F5B,
     SrcInt 0x1F5D, SrcInt 0x1F5F, SrcStr (str ''1F68-1F6F''), SrcStr (str ''1FB8-1FBB''),
     SrcStr (str ''1FC8-1FCB''), SrcStr (str ''1FD8-1FDB''), SrcStr (str ''1FE8-1FEC''),
     SrcStr (str ''1FF8-1FFB''), SrcInt 0x2102, SrcInt 0x2107, SrcStr (str ''210B-210D''),
     SrcStr (str ''2110-2112''), SrcInt 0x2115, SrcStr (str ''2119-211D''), SrcInt 0x2124,
     SrcInt 0x2126, SrcInt 0x2128, SrcStr (str ''212A-212D''), SrcStr (str ''2130-2133''),
     SrcInt 0x213E, SrcInt 0x213F, SrcInt 0x2145, SrcStr (str ''2160-216F''), SrcInt 0x2183,
     SrcStr (str ''24B6-24CF''), SrcStr (str ''2C00-2C2E''), SrcInt 0x2C60,
     SrcStr (str ''2C62-2C64''), SrcInt 0x2C67, SrcInt 0x2C69, SrcInt 0x2C6B,
     SrcStr (str ''2C6D-2C70''), SrcInt 0x2C72, SrcInt 0x2C75, SrcStr (str ''2C7E-2C80''),
     SrcInt 0x2C82, SrcInt 0x2C84, SrcInt 0x2C86, SrcInt 0x2C88, SrcInt 0x2C8A, SrcInt 0x2C8C,
     SrcInt 0x2C8E, SrcInt 0x2C90, SrcInt 0x2C92, SrcInt 0x2C94, SrcInt 0x2C96, SrcInt 0x2C98,
     SrcInt 0x2C9A, SrcInt 0x2C9C, SrcInt 0x2C9E, SrcInt 0x2CA0, SrcInt 0x2CA2, SrcInt 0x2CA4,
     SrcInt 0x2CA6, SrcInt 0x2CA8, SrcInt 0x2CAA, SrcInt 0x2CAC, SrcInt 0x2CAE, SrcInt 0x2CB0,
     SrcInt 0x2CB2, SrcInt 0x2CB4, SrcInt 0x2CB6, SrcInt 0x2CB8, SrcInt 0x2CBA, SrcInt 0x2CBC,
     SrcInt 0x2CBE, SrcInt 0x2CC0, SrcInt 0x2CC2, SrcInt 0x2CC4, SrcInt 0x2CC6, SrcInt 0x2CC8,
     SrcInt 0x2CCA, SrcInt 0x2CCC, SrcInt 0x2CCE, SrcInt 0x2CD0, SrcInt 0x2CD2, SrcInt 0x2CD4,
     SrcInt 0x2CD6, SrcInt 0x2CD8, SrcInt 0x2CDA, SrcInt 0x2CDC, SrcInt 0x2CDE, SrcInt 0x2CE0,
     SrcInt 0x2CE2, SrcInt 0x2CEB, SrcInt 0x2CED, SrcInt 0x2CF2, SrcInt 0xA640, SrcInt 0xA642,
     SrcInt 0xA644, SrcInt 0xA646, SrcInt 0xA648, SrcInt 0xA64A, SrcInt 0xA64C, SrcInt 0xA64E,
     SrcInt 0xA650, SrcInt 0xA652, SrcInt 0xA654, SrcInt 0xA656, SrcInt 0xA658, SrcInt 0xA65A,
     SrcInt 0xA65C, SrcInt 0xA65E, SrcInt 0xA660, SrcInt 0xA662, SrcInt 0xA664, SrcInt 0xA666,
     SrcInt 0xA668, SrcInt 0xA66A, SrcInt 0xA66C, SrcInt 0xA680, SrcInt 0xA682, SrcInt 0xA684,
     SrcInt 0xA686, SrcInt 0xA688, SrcInt 0xA68A, SrcInt 0xA68C, SrcInt 0xA68E, SrcInt 0xA690,
     SrcInt 0xA692, SrcInt 0xA694, SrcInt 0xA696, SrcInt 0xA698, SrcInt 0xA69A, SrcInt 0xA722,
     SrcInt 0xA724, SrcInt 0xA726, SrcInt 0xA728, SrcInt 0xA72A, SrcInt 0xA72C, SrcInt 0xA72E,
     SrcInt 0xA732, SrcInt 0xA734, SrcInt 0xA736, SrcInt 0xA738, SrcInt 0xA73A, SrcInt 0xA73C,
     SrcInt 0xA73E, SrcInt 0xA740, SrcInt 0xA742, SrcInt 0xA744, SrcInt 0xA746, SrcInt 0xA748,
     SrcInt 0xA74A, SrcInt 0xA74C, SrcInt 0xA74E, SrcInt 0xA750, SrcInt 0xA752, SrcInt 0xA754,
     SrcInt 0xA756, SrcInt 0xA758, SrcInt 0xA75A, SrcInt 0xA75C, SrcInt 0xA75E, SrcInt 0xA760,
     SrcInt 0xA762, SrcInt 0xA764, SrcInt 0xA766, SrcInt 0xA768, SrcInt 0xA76A, SrcInt 0xA76C,
     SrcInt 0xA76E, SrcInt 0xA779, SrcInt 0xA77B, SrcInt 0xA77D, SrcInt 0xA77E, SrcInt 0xA780,
     SrcInt 0xA782, SrcInt 0xA784, SrcInt 0xA786, SrcInt 0xA78B, SrcInt 0xA78D, SrcInt 0xA790,
     SrcInt 0xA792, SrcInt 0xA796, SrcInt 0xA798, SrcInt 0xA79A, SrcInt 0xA79C, SrcInt 0xA79E,
     SrcInt 0xA7A0, SrcInt 0xA7A2, SrcInt 0xA7A4, SrcInt 0xA7A6, SrcInt 0xA7A8,
     SrcStr (str ''A7AA-A7AE''), SrcStr (str ''A7B0-A7B4''), SrcInt 0xA7B6,
     SrcStr (str ''FF21-FF3A''), SrcStr (str ''10400-10427''), SrcStr (str ''104B0-104D3''),
     SrcStr (str ''10C80-10CB2''), SrcStr (str ''118A0-118BF''), SrcStr (str ''1D400-1D419''),
     SrcStr (str ''1D434-1D44D''), SrcStr (str ''1D468-1D481''), SrcInt 0x1D49C,
     SrcInt 0x1D49E, SrcInt 0x1D49F, SrcInt 0x1D4A2, SrcInt 0x1D4A5, SrcInt 0x1D4A6,
     SrcStr (str ''1D4A9-1D4AC''), SrcStr (str ''1D4AE-1D4B5''), SrcStr (str ''1D4D0-1D4E9''),
     SrcInt 0x1D504, SrcInt 0x1D505, SrcStr (str ''1D507-1D50A''),
     SrcStr (str ''1D50D-1D514''), SrcStr (str ''1D516-1D51C''), SrcInt 0x1D538,
     SrcInt 0x1D539, SrcStr (str ''1D53B-1D53E''), SrcStr (str ''1D540-1D544''),
     SrcInt 0x1D546, SrcStr (str ''1D54A-1D550''), SrcStr (str ''1D56C-1D585''),
     SrcStr (str ''1D5A0-1D5B9''), SrcStr (str ''1D5D4-1D5ED''), SrcStr (str ''1D608-1D621''),
     SrcStr (str ''1D63C-1D655''), SrcStr (str ''1D670-1D689''), SrcStr (str ''1D6A8-1D6C0''),
     SrcStr (str ''1D6E2-1D6FA''), SrcStr (str ''1D71C-1D734''), SrcStr (str ''1D756-1D76E''),
     SrcStr (str ''1D790-1D7A8''), SrcInt 0x1D7CA, SrcStr (str ''1E900-1E921''),
     SrcStr (str ''1F130-1F149''), SrcStr (str ''1F150-1F169''), SrcStr (str ''1F170-1F189'')]"

definition White_Space_src :: "src list" where
  "White_Space_src =
    [SrcStr (str ''0009-000D''), SrcInt 0x0020, SrcInt 0x0085, SrcInt 0x00A0, SrcInt 0x1680,
     SrcStr (str ''2000-200A''), SrcInt 0x2028, SrcInt 0x2029, SrcInt 0x202F, SrcInt 0x205F,
     SrcInt 0x3000]"

definition Latin_src :: "src list" where
  "Latin_src =
    [SrcStr (str ''0000-007F''), SrcStr (str ''0080-00FF''), SrcStr (str ''0100-017F''),
     SrcStr (str ''0180-024F''), SrcStr (str ''0250-02AF''), SrcStr (str ''02B0-02FF''),
     SrcStr (str ''1D00-1D7F''), SrcStr (str ''1D80-1DBF''), SrcStr (str ''1E00-1EFF''),
     SrcStr (str ''2070-209F''), SrcStr (str ''2100-214F''), SrcStr (str ''2150-218F''),
     SrcStr (str ''2C60-2C7F''), SrcStr (str ''A720-A7FF''), SrcStr (str ''AB30-AB6F''),
     SrcStr (str ''FB00-FB4F''), SrcStr (str ''FF00-FFEF'')]"

definition Latin_Alphabetic_src :: "src list" where
  "Latin_Alphabetic_src =
    [SrcStr (str ''0041-005A''), SrcStr (str ''0061-007A''), SrcInt 0x00B5,
     SrcStr (str ''00C0-00D6''), SrcStr (str ''00D8-00F6''), SrcStr (str ''00F8-00FF''),
     SrcStr (str ''0100-017F''), SrcStr (str ''0180-024F''), SrcStr (str ''1E00-1EFF''),
     SrcStr (str ''2C60-2C7F''), SrcStr (str ''A720-A7AC''), SrcStr (str ''A7B0-A7B7''),
     SrcStr (str ''A7F7-A7FF''), SrcStr (str ''AB30-AB65''), SrcStr (str ''FB00-FB06''),
     SrcStr (str ''FF20-FF5F'')]"

definition UNICODE_CATEGORY_SRC :: "(pystr \<times> src list) list" where
  "UNICODE_CATEGORY_SRC =
     [(str ''ASCII'', ASCII_src),
      (str ''Alphabetic'', Alphabetic_src),
      (str ''Any'', Any_src),
      (str ''Default_Ignorable_Code_Point'', Default_Ignorable_Code_Point_src),
      (str ''Lowercase'', Lowercase_src),
      (str ''Noncharacter_Code_Point'', Noncharacter_Code_Point_src),
      (str ''Uppercase'', Uppercase_src),
      (str ''White_Space'', White_Space_src),
      (str ''Latin'', Latin_src),
      (str ''Latin_Alphabetic'', Latin_Alphabetic_src)]"

subsection \<open>Lookup of a category and expansion of the whole table\<close>

text \<open>
  The dictionary \<open>_UNICODE_CATEGORY_SRC\<close> is an association list in the order of the
  source; its keys are distinct. A missing key raises \<open>KeyError\<close>.
\<close>

definition get_unicode_characters :: "pystr \<Rightarrow> error + pystr" where
  "get_unicode_characters category =
     (case map_of UNICODE_CATEGORY_SRC category of
        None \<Rightarrow> Inl (KeyError category)
      | Some definition_strings \<Rightarrow> unicode_def_src_to_str definition_strings)"

text \<open>
  The dictionary comprehension \<open>{k: _unicode_def_src_to_str(v) for k, v in items}\<close>:
  the first exception ends it.
\<close>

fun category_strings :: "(pystr \<times> src list) list \<Rightarrow> error + (pystr \<times> pystr) list" where
  "category_strings [] = Inr []"
| "category_strings ((k, v) # items) =
     (case unicode_def_src_to_str v of
        Inl e \<Rightarrow> Inl e
      | Inr chars \<Rightarrow>
          (case category_strings items of
             Inl e \<Rightarrow> Inl e
           | Inr d \<Rightarrow> Inr ((k, chars) # d)))"

definition get_unicode_category_strings :: "error + (pystr \<times> pystr) list" where
  "get_unicode_category_strings = category_strings UNICODE_CATEGORY_SRC"

subsection \<open>Codepoint declarations, as the specification describes them\<close>

text \<open>
  A declaration denotes an inclusive range of code points: an integer \<open>c\<close> the range
  from \<open>c\<close> to \<open>c\<close>, a string \<open>A-B\<close> (two pieces around one hyphen, each read by
  \<open>int(x, 16)\<close>) the range from \<open>A\<close> to \<open>B\<close>. A declaration is valid when its range
  is in ascending order and within the code points \<open>0\<close> to \<open>0x10FFFF\<close>; its
  characters are those of the range in ascending order and their count is
  \<open>B - A + 1\<close>. A declaration is failing when it denotes no range, or a range in
  ascending order that leaves the code points.
\<close>

fun declared_range :: "src \<Rightarrow> (int \<times> int) option" where
  "declared_range (SrcInt c) = Some (c, c)"
| "declared_range (SrcStr s) =
     (case int16_each (split s HYPHEN) of
        Inr [A, B] \<Rightarrow> Some (A, B)
      | _ \<Rightarrow> None)"

definition valid_declaration :: "src \<Rightarrow> bool" where
  "valid_declaration d =
     (case declared_range d of
        None \<Rightarrow> False
      | Some (A, B) \<Rightarrow> A \<le> B \<and> 0 \<le> A \<and> B \<le> 0x10FFFF)"

definition failing_declaration :: "src \<Rightarrow> bool" where
  "failing_declaration d =
     (case declared_range d of
        None \<Rightarrow> True
      | Some (A, B) \<Rightarrow> A \<le> B \<and> (A < 0 \<or> 0x10FFFF < B))"

definition declared_chars :: "src \<Rightarrow> pystr" where
  "declared_chars d =
     (case declared_range d of
        None \<Rightarrow> []
      | Some (A, B) \<Rightarrow> map nat [A..B])"

definition declared_count :: "src \<Rightarrow> nat" where
  "declared_count d =
     (case declared_range d of
        None \<Rightarrow> 0
      | Some (A, B) \<Rightarrow> nat (B - A + 1))"

section \<open>Properties of the escape codec\<close>

subsection \<open>The index loop is a fold over the string\<close>

lemma for_range_drop:
  "for_range body s [j..<length s] st = Inr (fold body (drop j s) st)"
proof (induction "length s - j" arbitrary: j st)
  case 0
  then show ?case by simp
next
  case (Suc k)
  then have lt: "j < length s" by simp
  have "[j..<length s] = j # [Suc j..<length s]"
    using lt by (simp add: upt_conv_Cons)
  moreover have "drop j s = s ! j # drop (Suc j) s"
    using lt by (simp add: Cons_nth_drop_Suc)
  moreover have "k = length s - Suc j"
    using Suc.hyps(2) by simp
  ultimately show ?case
    using Suc.hyps(1) [of "Suc j"] lt by (simp add: getitem_def)
qed

lemma for_range_fold: "for_range body s [0..<length s] st = Inr (fold body s st)"
  using for_range_drop [of body s 0 st] by simp

lemma unescape_newlines_loop_fold:
  "unescape_newlines_loop s = Inr (fold unescape_newlines_body s ([], False))"
  by (simp add: unescape_newlines_loop_def for_range_fold)

lemma unescape_tabs_newlines_loop_fold:
  "unescape_tabs_newlines_loop s = Inr (fold unescape_tabs_newlines_body s ([], False))"
  by (simp add: unescape_tabs_newlines_loop_def for_range_fold)

lemma unescape_newlines_fold:
  "unescape_newlines s = Inr (fst (fold unescape_newlines_body s ([], False)))"
  by (cases "s = []")
    (simp_all add: unescape_newlines_def unescape_newlines_loop_fold split: prod.splits)

lemma unescape_tabs_newlines_fold:
  "unescape_tabs_newlines s = Inr (fst (fold unescape_tabs_newlines_body s ([], False)))"
  by (cases "s = []")
    (simp_all add: unescape_tabs_newlines_def unescape_tabs_newlines_loop_fold split: prod.splits)

subsection \<open>The replace passes are one pass of the Escape Mapping\<close>

lemma replace_absent: "old \<notin> set s \<Longrightarrow> replace s old new = s"
  by (induction s) simp_all

lemma replace3_chars:
  "replace (replace (replace s BACKSLASH [BACKSLASH, BACKSLASH]) LF [BACKSLASH, LETTER_n])
     CR [BACKSLASH, LETTER_r] = concat (map escape_char s)"
  by (induction s) simp_all

lemma replace4_chars:
  "replace (replace (replace (replace s BACKSLASH [BACKSLASH, BACKSLASH])
     LF [BACKSLASH, LETTER_n]) CR [BACKSLASH, LETTER_r]) TAB [BACKSLASH, LETTER_t] =
   concat (map escape_tab_char s)"
  by (induction s) simp_all

lemma escape_newlines_chars: "escape_newlines s = concat (map escape_char s)"
  by (cases "s = []")
    (simp_all add: escape_newlines_def Let_def replace3_chars del: escape_char.simps)

lemma escape_tabs_newlines_chars: "escape_tabs_newlines s = concat (map escape_tab_char s)"
  by (cases "s = []")
    (simp_all add: escape_tabs_newlines_def Let_def replace4_chars del: escape_tab_char.simps)

lemma fold_unescape_escape:
  "fold unescape_newlines_body (concat (map escape_char s) @ r) (d, False) =
   fold unescape_newlines_body r (d @ s, False)"
  by (induction s arbitrary: d) simp_all

lemma fold_unescape_tabs_escape:
  "fold unescape_tabs_newlines_body (concat (map escape_tab_char s) @ r) (d, False) =
   fold unescape_tabs_newlines_body r (d @ s, False)"
  by (induction s arbitrary: d) simp_all

subsection \<open>Round trip\<close>

text \<open>
  Claim C1. For every string \<open>s\<close>, unescaping the escaped string gives \<open>s\<close> back, without
  an exception: \<open>unescape_newlines(escape_newlines(s)) == s\<close> and
  \<open>unescape_tabs_newlines(escape_tabs_newlines(s)) == s\<close>.
\<close>

theorem escape_unescape_roundtrip:
  "unescape_newlines (escape_newlines s) = Inr s \<and>
   unescape_tabs_newlines (escape_tabs_newlines s) = Inr s"
  using fold_unescape_escape [of s "[]" "[]"] fold_unescape_tabs_escape [of s "[]" "[]"]
  by (simp add: unescape_newlines_fold unescape_tabs_newlines_fold escape_newlines_chars
      escape_tabs_newlines_chars del: escape_char.simps escape_tab_char.simps)

subsection \<open>No raw control characters in the output\<close>

text \<open>
  Claim C5. For every string \<open>s\<close>, \<open>escape_newlines(s)\<close> contains no raw LF and no raw
  CR, and \<open>escape_tabs_newlines(s)\<close> contains no raw LF, CR or TAB.
\<close>

theorem escape_output_single_line:
  "LF \<notin> set (escape_newlines s) \<and> CR \<notin> set (escape_newlines s) \<and>
   LF \<notin> set (escape_tabs_newlines s) \<and> CR \<notin> set (escape_tabs_newlines s) \<and>
   TAB \<notin> set (escape_tabs_newlines s)"
  by (auto simp: escape_newlines_chars escape_tabs_newlines_chars split: if_splits)

subsection \<open>A trailing backslash\<close>

lemma newlines_body_escape:
  "unescape_newlines_body c st = (d, True) \<Longrightarrow> c = BACKSLASH \<and> st = (d, False)"
  by (cases st) (auto split: if_splits)

lemma tabs_newlines_body_escape:
  "unescape_tabs_newlines_body c st = (d, True) \<Longrightarrow> c = BACKSLASH \<and> st = (d, False)"
  by (cases st) (auto split: if_splits)

lemma fold_ends_in_escape:
  assumes body: "\<And>c st d. body c st = (d, True) \<Longrightarrow> c = BACKSLASH \<and> st = (d, False)"
    and fin: "fold body t ([], False) = (d, True)"
  shows "t \<noteq> [] \<and> last t = BACKSLASH \<and> fold body (butlast t) ([], False) = (d, False)"
proof -
  have ne: "t \<noteq> []"
    using fin by auto
  then have "t = butlast t @ [last t]"
    by simp
  then have "fold body t ([], False) = body (last t) (fold body (butlast t) ([], False))"
    by (metis fold_append fold_simps comp_apply id_apply)
  with fin body ne show ?thesis
    by metis
qed

text \<open>
  Claim C6. When the scan of an input \<open>t\<close> ends in escape state (the loop finishes with
  \<open>in_escape\<close> true and destination \<open>d\<close>), \<open>t\<close> ends with a backslash, the result is
  \<open>d\<close>, and it is the result for \<open>t\<close> without that last backslash: nothing is emitted
  for it and nothing is raised. This holds for \<open>unescape_newlines\<close> and for
  \<open>unescape_tabs_newlines\<close>. In particular \<open>unescape_newlines\<close> of \<open>abc\<close> followed by
  one backslash is \<open>abc\<close>. On every input \<open>s\<close> both functions return a string.
\<close>

theorem unescape_trailing_backslash_dropped:
  "(unescape_newlines_loop t = Inr (d, True) \<longrightarrow>
      t \<noteq> [] \<and> last t = BACKSLASH \<and> unescape_newlines t = Inr d \<and>
      unescape_newlines (butlast t) = Inr d) \<and>
   (unescape_tabs_newlines_loop t = Inr (d, True) \<longrightarrow>
      t \<noteq> [] \<and> last t = BACKSLASH \<and> unescape_tabs_newlines t = Inr d \<and>
      unescape_tabs_newlines (butlast t) = Inr d) \<and>
   unescape_newlines (str ''abc'' @ [BACKSLASH]) = Inr (str ''abc'') \<and>
   (\<exists>r. unescape_newlines s = Inr r) \<and> (\<exists>r. unescape_tabs_newlines s = Inr r)"
proof -
  have a: "t \<noteq> [] \<and> last t = BACKSLASH \<and> unescape_newlines t = Inr d \<and>
      unescape_newlines (butlast t) = Inr d"
    if "unescape_newlines_loop t = Inr (d, True)"
  proof -
    from that have f: "fold unescape_newlines_body t ([], False) = (d, True)"
      by (simp add: unescape_newlines_loop_fold)
    from fold_ends_in_escape [of unescape_newlines_body, OF newlines_body_escape f] f
    show ?thesis by (simp add: unescape_newlines_fold)
  qed
  have b: "t \<noteq> [] \<and> last t = BACKSLASH \<and> unescape_tabs_newlines t = Inr d \<and>
      unescape_tabs_newlines (butlast t) = Inr d"
    if "unescape_tabs_newlines_loop t = Inr (d, True)"
  proof -
    from that have f: "fold unescape_tabs_newlines_body t ([], False) = (d, True)"
      by (simp add: unescape_tabs_newlines_loop_fold)
    from fold_ends_in_escape [of unescape_tabs_newlines_body, OF tabs_newlines_body_escape f] f
    show ?thesis by (simp add: unescape_tabs_newlines_fold)
  qed
  have c: "unescape_newlines (str ''abc'' @ [BACKSLASH]) = Inr (str ''abc'')"
    by (simp add: unescape_newlines_fold str_def)
  show ?thesis
    using a b c by (simp add: unescape_newlines_fold unescape_tabs_newlines_fold)
qed

theorem unescape_trailing_backslash_dropped_witness:
  "unescape_newlines_loop (str ''abc'' @ [BACKSLASH]) = Inr (str ''abc'', True) \<and>
   unescape_tabs_newlines_loop (str ''abc'' @ [BACKSLASH]) = Inr (str ''abc'', True) \<and>
   last (str ''abc'' @ [BACKSLASH]) = BACKSLASH \<and>
   unescape_newlines (str ''abc'' @ [BACKSLASH]) = Inr (str ''abc'') \<and>
   unescape_tabs_newlines (str ''abc'' @ [BACKSLASH]) = Inr (str ''abc'') \<and>
   unescape_newlines (butlast (str ''abc'' @ [BACKSLASH])) = Inr (str ''abc'') \<and>
   unescape_tabs_newlines (butlast (str ''abc'' @ [BACKSLASH])) = Inr (str ''abc'')"
proof -
  have h1: "unescape_newlines_loop (str ''abc'' @ [BACKSLASH]) = Inr (str ''abc'', True)"
    by (simp add: unescape_newlines_loop_fold str_def)
  have h2: "unescape_tabs_newlines_loop (str ''abc'' @ [BACKSLASH]) = Inr (str ''abc'', True)"
    by (simp add: unescape_tabs_newlines_loop_fold str_def)
  from unescape_trailing_backslash_dropped [of "str ''abc'' @ [BACKSLASH]" "str ''abc''" "[]"] h1 h2
  show ?thesis by simp
qed

subsection \<open>Inputs that need no escaping\<close>

text \<open>
  Claim C9. \<open>escape_newlines(s) == s\<close> for every \<open>s\<close> without backslash, LF and CR;
  \<open>escape_tabs_newlines(s) == s\<close> when \<open>s\<close> has no TAB either; and on the empty string
  \<open>escape_newlines\<close> and \<open>unescape_newlines\<close> return the empty string.
\<close>

theorem escape_identity_when_nothing_to_escape:
  "(BACKSLASH \<notin> set s \<and> LF \<notin> set s \<and> CR \<notin> set s \<longrightarrow> escape_newlines s = s) \<and>
   (BACKSLASH \<notin> set s \<and> LF \<notin> set s \<and> CR \<notin> set s \<and> TAB \<notin> set s \<longrightarrow>
      escape_tabs_newlines s = s) \<and>
   escape_newlines [] = [] \<and> unescape_newlines [] = Inr []"
  by (simp add: escape_newlines_def escape_tabs_newlines_def unescape_newlines_def
      replace_absent)

theorem escape_identity_when_nothing_to_escape_witness:
  "BACKSLASH \<notin> set (str ''a b'') \<and> LF \<notin> set (str ''a b'') \<and> CR \<notin> set (str ''a b'') \<and>
   TAB \<notin> set (str ''a b'') \<and>
   escape_newlines (str ''a b'') = str ''a b'' \<and>
   escape_tabs_newlines (str ''a b'') = str ''a b''"
proof -
  have h: "BACKSLASH \<notin> set (str ''a b'') \<and> LF \<notin> set (str ''a b'') \<and>
      CR \<notin> set (str ''a b'') \<and> TAB \<notin> set (str ''a b'')"
    by (simp add: str_def)
  from escape_identity_when_nothing_to_escape [of "str ''a b''"] h
  show ?thesis by simp
qed

section \<open>Properties of the range expander\<close>

subsection \<open>What the builtins raise\<close>

lemma scan_digits_error: "scan_digits prev acc s = Inl e \<Longrightarrow> e = ValueError"
  by (induction prev acc s rule: scan_digits.induct) (auto split: if_splits)

lemma int16_error: "int16 x = Inl e \<Longrightarrow> e = ValueError"
  unfolding int16_def Let_def
  by (auto split: if_splits sum.splits prod.splits list.splits dest: scan_digits_error)

lemma int16_each_error: "int16_each xs = Inl e \<Longrightarrow> e = ValueError"
  by (induction xs) (auto split: sum.splits dest: int16_error)

lemma int16_each_all2:
  "int16_each xs = Inr vs \<Longrightarrow> list_all2 (\<lambda>x v. int16 x = Inr v) xs vs"
  by (induction xs arbitrary: vs) (auto split: sum.splits)

lemma int16_each_pair:
  assumes "int16_each xs = Inr [A, B]"
  shows "\<exists>a b. xs = [a, b] \<and> int16 a = Inr A \<and> int16 b = Inr B"
  using int16_each_all2 [OF assms] by (auto simp: list_all2_Cons2)

lemma chr_error: "chr i = Inl e \<Longrightarrow> e = ValueError \<or> e = OverflowError"
  by (auto simp: chr_def split: if_splits)

lemma chr_ok: "0 \<le> i \<Longrightarrow> i \<le> 0x10FFFF \<Longrightarrow> chr i = Inr (nat i)"
  by (simp add: chr_def)

lemma chr_fail: "i < 0 \<or> 0x10FFFF < i \<Longrightarrow> \<exists>e. chr i = Inl e"
  by (auto simp: chr_def)

lemma chr_each_ok:
  "\<forall>x\<in>set xs. 0 \<le> x \<and> x \<le> 0x10FFFF \<Longrightarrow> chr_each xs = Inr (map (\<lambda>x. [nat x]) xs)"
  by (induction xs) (simp_all add: chr_ok)

lemma chr_each_fail:
  "\<exists>x\<in>set xs. x < 0 \<or> 0x10FFFF < x \<Longrightarrow>
   \<exists>e. chr_each xs = Inl e \<and> (e = ValueError \<or> e = OverflowError)"
proof (induction xs)
  case Nil
  then show ?case by simp
next
  case (Cons x xs)
  show ?case
  proof (cases "chr x")
    case (Inl e)
    then show ?thesis
      using chr_error [of x e] by simp
  next
    case (Inr c)
    then have "\<not> (x < 0 \<or> 0x10FFFF < x)"
      using chr_fail [of x] by auto
    with Cons.prems have "\<exists>y\<in>set xs. y < 0 \<or> 0x10FFFF < y"
      by auto
    from Cons.IH [OF this] Inr show ?thesis
      by auto
  qed
qed

subsection \<open>One iteration of the loop\<close>

lemma loop_step_ok:
  assumes "\<not> failing_declaration d"
  shows "unicode_def_src_loop (d # ds) cl =
         unicode_def_src_loop ds (cl @ map (\<lambda>c. [c]) (declared_chars d))"
proof (cases d)
  case (SrcInt i)
  with assms have "0 \<le> i \<and> i \<le> 0x10FFFF"
    by (auto simp: failing_declaration_def)
  then show ?thesis
    using SrcInt by (simp add: chr_ok declared_chars_def)
next
  case (SrcStr s)
  with assms obtain A B where r: "int16_each (split s HYPHEN) = Inr [A, B]"
    and nf: "\<not> (A \<le> B \<and> (A < 0 \<or> 0x10FFFF < B))"
    by (auto simp: failing_declaration_def split: sum.splits list.splits)
  have "chr_each [A..B] = Inr (map (\<lambda>x. [nat x]) [A..B])"
    by (rule chr_each_ok) (use nf in auto)
  then show ?thesis
    using SrcStr r by (simp add: declared_chars_def comp_def)
qed

lemma loop_step_fail:
  assumes "failing_declaration d"
  shows "\<exists>e. unicode_def_src_loop (d # ds) cl = Inl e \<and> (e = ValueError \<or> e = OverflowError)"
proof (cases d)
  case (SrcInt i)
  with assms have "i < 0 \<or> 0x10FFFF < i"
    by (auto simp: failing_declaration_def)
  from chr_fail [OF this] obtain e where "chr i = Inl e"
    by blast
  then show ?thesis
    using SrcInt chr_error [of i e] by simp
next
  case (SrcStr s)
  show ?thesis
  proof (cases "int16_each (split s HYPHEN)")
    case (Inl e)
    then show ?thesis
      using SrcStr int16_each_error [of _ e] by simp
  next
    case (Inr vs)
    show ?thesis
    proof (cases "\<exists>A B. vs = [A, B]")
      case True
      then obtain A B where vs: "vs = [A, B]"
        by blast
      with assms SrcStr Inr have "A \<le> B \<and> (A < 0 \<or> 0x10FFFF < B)"
        by (simp add: failing_declaration_def)
      then have "\<exists>x\<in>set [A..B]. x < 0 \<or> 0x10FFFF < x"
        by auto
      from chr_each_fail [OF this] show ?thesis
        using SrcStr Inr vs by auto
    next
      case False
      then show ?thesis
        using SrcStr Inr by (cases vs rule: list.exhaust) (auto split: list.splits)
    qed
  qed
qed

subsection \<open>The whole loop\<close>

lemma loop_ok:
  "list_all (\<lambda>d. \<not> failing_declaration d) ds \<Longrightarrow>
   unicode_def_src_loop ds cl =
     Inr (cl @ concat (map (\<lambda>d. map (\<lambda>c. [c]) (declared_chars d)) ds))"
  by (induction ds arbitrary: cl) (simp_all add: loop_step_ok)

lemma loop_fail:
  "\<exists>d\<in>set ds. failing_declaration d \<Longrightarrow>
   \<exists>e. unicode_def_src_loop ds cl = Inl e \<and> (e = ValueError \<or> e = OverflowError)"
proof (induction ds arbitrary: cl)
  case Nil
  then show ?case by simp
next
  case (Cons d ds)
  show ?case
  proof (cases "failing_declaration d")
    case True
    then show ?thesis
      by (rule loop_step_fail)
  next
    case False
    with Cons.prems have "\<exists>d\<in>set ds. failing_declaration d"
      by auto
    from Cons.IH [OF this] show ?thesis
      using False by (simp add: loop_step_ok)
  qed
qed

lemma concat_singletons: "concat (map (\<lambda>c. [c]) xs) = xs"
  by (induction xs) simp_all

lemma concat_pieces:
  "concat (concat (map (\<lambda>d. map (\<lambda>c. [c]) (f d)) ds)) = concat (map f ds)"
  by (induction ds) (simp_all add: concat_singletons)

lemma to_str_ok:
  "list_all (\<lambda>d. \<not> failing_declaration d) ds \<Longrightarrow>
   unicode_def_src_to_str ds = Inr (concat (map declared_chars ds))"
  by (simp add: unicode_def_src_to_str_def loop_ok concat_pieces)

lemma to_str_fail:
  "\<exists>d\<in>set ds. failing_declaration d \<Longrightarrow>
   \<exists>e. unicode_def_src_to_str ds = Inl e \<and> (e = ValueError \<or> e = OverflowError)"
  using loop_fail [of ds "[]"] by (auto simp: unicode_def_src_to_str_def)

lemma valid_not_failing: "valid_declaration d \<Longrightarrow> \<not> failing_declaration d"
  by (auto simp: valid_declaration_def failing_declaration_def split: option.splits)

lemma to_str_valid:
  "list_all valid_declaration ds \<Longrightarrow>
   unicode_def_src_to_str ds = Inr (concat (map declared_chars ds))"
  by (rule to_str_ok) (auto simp: list_all_iff dest: valid_not_failing)

lemma length_declared_chars: "length (declared_chars d) = declared_count d"
  by (auto simp: declared_chars_def declared_count_def split: option.splits)

lemma length_concat_declared:
  "length (concat (map declared_chars ds)) = sum_list (map declared_count ds)"
  by (induction ds) (simp_all add: length_declared_chars)

lemma map_nat_upto: "map nat [0..int n] = [0..<Suc n]"
proof (induction n)
  case 0
  show ?case by (simp add: upto.simps)
next
  case (Suc n)
  have "[0..int (Suc n)] = [0..int n] @ [int (Suc n)]"
    using upto_rec2 [of 0 "int (Suc n)"] by simp
  then show ?case
    using Suc by simp
qed

subsection \<open>The declarations of the table are valid\<close>

lemmas evaluate_declaration =
  str_def split_def int16_def to_ascii_def Py_ISSPACE_def digit_value_def

lemma valid_ASCII: "list_all valid_declaration ASCII_src"
  by (simp add: ASCII_src_def valid_declaration_def evaluate_declaration)

lemma valid_Alphabetic: "list_all valid_declaration Alphabetic_src"
  by (simp add: Alphabetic_src_def valid_declaration_def evaluate_declaration)

lemma valid_Any: "list_all valid_declaration Any_src"
  by (simp add: Any_src_def valid_declaration_def evaluate_declaration)

lemma valid_Default_Ignorable_Code_Point:
  "list_all valid_declaration Default_Ignorable_Code_Point_src"
  by (simp add: Default_Ignorable_Code_Point_src_def valid_declaration_def
      evaluate_declaration)

lemma valid_Lowercase: "list_all valid_declaration Lowercase_src"
  by (simp add: Lowercase_src_def valid_declaration_def evaluate_declaration)

lemma valid_Noncharacter_Code_Point: "list_all valid_declaration Noncharacter_Code_Point_src"
  by (simp add: Noncharacter_Code_Point_src_def valid_declaration_def evaluate_declaration)

lemma valid_Uppercase: "list_all valid_declaration Uppercase_src"
  by (simp add: Uppercase_src_def valid_declaration_def evaluate_declaration)

lemma valid_White_Space: "list_all valid_declaration White_Space_src"
  by (simp add: White_Space_src_def valid_declaration_def evaluate_declaration)

lemma valid_Latin: "list_all valid_declaration Latin_src"
  by (simp add: Latin_src_def valid_declaration_def evaluate_declaration)

lemma valid_Latin_Alphabetic: "list_all valid_declaration Latin_Alphabetic_src"
  by (simp add: Latin_Alphabetic_src_def valid_declaration_def evaluate_declaration)

lemma table_valid: "\<forall>(k, v)\<in>set UNICODE_CATEGORY_SRC. list_all valid_declaration v"
  by (simp add: UNICODE_CATEGORY_SRC_def valid_ASCII valid_Alphabetic valid_Any
      valid_Default_Ignorable_Code_Point valid_Lowercase valid_Noncharacter_Code_Point
      valid_Uppercase valid_White_Space valid_Latin valid_Latin_Alphabetic)

lemma count_Alphabetic: "sum_list (map declared_count Alphabetic_src) = 118240"
  by (simp add: Alphabetic_src_def declared_count_def evaluate_declaration)

lemma table_keys:
  "map fst UNICODE_CATEGORY_SRC =
     [str ''ASCII'', str ''Alphabetic'', str ''Any'', str ''Default_Ignorable_Code_Point'',
      str ''Lowercase'', str ''Noncharacter_Code_Point'', str ''Uppercase'',
      str ''White_Space'', str ''Latin'', str ''Latin_Alphabetic'']"
  by (simp add: UNICODE_CATEGORY_SRC_def)

lemma table_keys_distinct: "distinct (map fst UNICODE_CATEGORY_SRC)"
  unfolding table_keys by (simp add: str_def)

lemma map_of_ASCII: "map_of UNICODE_CATEGORY_SRC (str ''ASCII'') = Some ASCII_src"
  by (simp add: UNICODE_CATEGORY_SRC_def str_def)

lemma map_of_Alphabetic:
  "map_of UNICODE_CATEGORY_SRC (str ''Alphabetic'') = Some Alphabetic_src"
  by (simp add: UNICODE_CATEGORY_SRC_def str_def)

lemma map_of_Any: "map_of UNICODE_CATEGORY_SRC (str ''Any'') = Some Any_src"
  by (simp add: UNICODE_CATEGORY_SRC_def str_def)

lemma map_of_White_Space:
  "map_of UNICODE_CATEGORY_SRC (str ''White_Space'') = Some White_Space_src"
  by (simp add: UNICODE_CATEGORY_SRC_def str_def)

lemma category_strings_valid:
  "\<forall>(k, v)\<in>set items. list_all valid_declaration v \<Longrightarrow>
   category_strings items = Inr (map (\<lambda>(k, v). (k, concat (map declared_chars v))) items)"
  by (induction items) (auto simp: to_str_valid)

subsection \<open>When the expansion fails\<close>

text \<open>
  Claim C2, as stated, fails on the code: the inverted range \<open>0010-0005\<close> is not
  rejected. \<open>range(0x10, 0x5 + 1)\<close> is empty, so \<open>_unicode_def_src_to_str\<close> returns
  the empty string for the list \<open>["0010-0005"]\<close>.
\<close>

theorem inverted_range_counterexample:
  "unicode_def_src_to_str [SrcStr (str ''0010-0005'')] = Inr []"
  by (simp add: unicode_def_src_to_str_def evaluate_declaration)

text \<open>
  Claim C2, amended. \<open>_unicode_def_src_to_str\<close> raises exactly when some entry of the
  list is a failing declaration, and what it raises is \<open>ValueError\<close> or (from \<open>chr\<close>)
  \<open>OverflowError\<close>. An integer entry is failing when it is outside \<open>0\<close> to
  \<open>0x10FFFF\<close>; a string entry is failing when \<open>int(x, 16)\<close> rejects one of its pieces
  between hyphens, when it has not exactly two pieces, or when its range is in
  ascending order and has an end outside \<open>0\<close> to \<open>0x10FFFF\<close>. A range whose first end
  exceeds its second is not failing, whatever its ends: alone in the list it expands to
  the empty string.
\<close>

theorem expansion_fails_iff_failing_declaration:
  "((\<exists>e. unicode_def_src_to_str srclist = Inl e) \<longleftrightarrow>
      (\<exists>d\<in>set srclist. failing_declaration d)) \<and>
   (unicode_def_src_to_str srclist = Inl e \<longrightarrow> e = ValueError \<or> e = OverflowError) \<and>
   (failing_declaration (SrcInt c) \<longleftrightarrow> c < 0 \<or> 0x10FFFF < c) \<and>
   (failing_declaration (SrcStr s) \<longleftrightarrow>
      (case int16_each (split s HYPHEN) of
         Inl e' \<Rightarrow> True
       | Inr vs \<Rightarrow>
           length vs \<noteq> 2 \<or> vs ! 0 \<le> vs ! 1 \<and> (vs ! 0 < 0 \<or> 0x10FFFF < vs ! 1))) \<and>
   (declared_range d = Some (A, B) \<and> B < A \<longrightarrow> unicode_def_src_to_str [d] = Inr [])"
proof -
  have ok: "unicode_def_src_to_str ds = Inr (concat (map declared_chars ds))"
    if "\<not> (\<exists>d\<in>set ds. failing_declaration d)" for ds
    using that by (intro to_str_ok) (simp add: list_all_iff)
  have iff: "(\<exists>e. unicode_def_src_to_str srclist = Inl e) \<longleftrightarrow>
      (\<exists>d\<in>set srclist. failing_declaration d)"
    using ok [of srclist] to_str_fail [of srclist] by fastforce
  have kind: "e = ValueError \<or> e = OverflowError"
    if "unicode_def_src_to_str srclist = Inl e"
  proof -
    from that iff have "\<exists>d\<in>set srclist. failing_declaration d"
      by blast
    from to_str_fail [OF this] that show ?thesis
      by auto
  qed
  have single: "failing_declaration (SrcInt c) \<longleftrightarrow> c < 0 \<or> 0x10FFFF < c"
    by (auto simp: failing_declaration_def)
  have range: "failing_declaration (SrcStr s) \<longleftrightarrow>
      (case int16_each (split s HYPHEN) of
         Inl e' \<Rightarrow> True
       | Inr vs \<Rightarrow>
           length vs \<noteq> 2 \<or> vs ! 0 \<le> vs ! 1 \<and> (vs ! 0 < 0 \<or> 0x10FFFF < vs ! 1))"
    by (auto simp: failing_declaration_def split: sum.splits list.splits)
  have inverted: "unicode_def_src_to_str [d] = Inr []"
    if "declared_range d = Some (A, B)" "B < A"
  proof -
    from that have "\<not> failing_declaration d"
      by (simp add: failing_declaration_def)
    then have "unicode_def_src_to_str [d] = Inr (concat (map declared_chars [d]))"
      by (intro ok) simp
    with that show ?thesis
      by (simp add: declared_chars_def)
  qed
  from iff kind single range inverted show ?thesis
    by blast
qed

text \<open>
  Witness for C2: the list \<open>[0x61, "10FFFF-110000"]\<close> has a failing declaration and
  raises \<open>ValueError\<close>; the declaration \<open>"0010-0005"\<close> denotes the inverted range from
  \<open>0x10\<close> to \<open>0x5\<close> and expands to the empty string.
\<close>

theorem expansion_fails_iff_failing_declaration_witness:
  "(\<exists>d\<in>set [SrcInt 0x61, SrcStr (str ''10FFFF-110000'')]. failing_declaration d) \<and>
   unicode_def_src_to_str [SrcInt 0x61, SrcStr (str ''10FFFF-110000'')] = Inl ValueError \<and>
   declared_range (SrcStr (str ''0010-0005'')) = Some (0x10, 0x5) \<and>
   unicode_def_src_to_str [SrcStr (str ''0010-0005'')] = Inr []"
proof -
  have h1: "\<exists>d\<in>set [SrcInt 0x61, SrcStr (str ''10FFFF-110000'')]. failing_declaration d"
    by (simp add: failing_declaration_def evaluate_declaration)
  have h2: "unicode_def_src_to_str [SrcInt 0x61, SrcStr (str ''10FFFF-110000'')] =
      Inl ValueError"
    by (simp add: unicode_def_src_to_str_def chr_def evaluate_declaration)
  have h3: "declared_range (SrcStr (str ''0010-0005'')) = Some (0x10, 0x5)"
    by (simp add: evaluate_declaration)
  from expansion_fails_iff_failing_declaration
    [of "[SrcInt 0x61, SrcStr (str ''10FFFF-110000'')]" ValueError
      "0x61" "str ''0010-0005''" "SrcStr (str ''0010-0005'')" "0x10" "0x5"] h1 h2 h3
  show ?thesis by simp
qed

subsection \<open>An unknown category\<close>

text \<open>
  Claim C3. For every name that is not a key of the table,
  \<open>get_unicode_characters(name)\<close> raises \<open>KeyError\<close> for that name: it returns no
  string, the empty string included. In particular for \<open>NotACategory\<close>.
\<close>

theorem unknown_category_raises_KeyError:
  "(category \<notin> set (map fst UNICODE_CATEGORY_SRC) \<longrightarrow>
      get_unicode_characters category = Inl (KeyError category)) \<and>
   get_unicode_characters (str ''NotACategory'') = Inl (KeyError (str ''NotACategory''))"
proof -
  have a: "get_unicode_characters c = Inl (KeyError c)"
    if "c \<notin> set (map fst UNICODE_CATEGORY_SRC)" for c
  proof -
    from that have "map_of UNICODE_CATEGORY_SRC c = None"
      by (simp add: map_of_eq_None_iff)
    then show ?thesis
      by (simp add: get_unicode_characters_def)
  qed
  have "str ''NotACategory'' \<notin> set (map fst UNICODE_CATEGORY_SRC)"
    unfolding table_keys by (simp add: str_def)
  with a show ?thesis
    by blast
qed

theorem unknown_category_raises_KeyError_witness:
  "str ''whitespace'' \<notin> set (map fst UNICODE_CATEGORY_SRC) \<and>
   get_unicode_characters (str ''whitespace'') = Inl (KeyError (str ''whitespace''))"
proof -
  have h: "str ''whitespace'' \<notin> set (map fst UNICODE_CATEGORY_SRC)"
    unfolding table_keys by (simp add: str_def)
  from unknown_category_raises_KeyError [of "str ''whitespace''"] h
  show ?thesis by simp
qed

subsection \<open>The expansion of valid declarations\<close>

text \<open>
  Claim C4. For every list of valid declarations, \<open>_unicode_def_src_to_str\<close> returns
  the concatenation, in list order, of the characters of each declaration, and the
  length of the result is the sum of the counts of the declarations. A valid integer
  entry \<open>c\<close> has the one character \<open>chr(c)\<close> and count 1; a valid string entry has two
  pieces around one hyphen, read by \<open>int(x, 16)\<close> as \<open>A \<le> B\<close>, the characters of the
  code points \<open>A\<close> to \<open>B\<close> in ascending order, and count \<open>B - A + 1\<close>. In particular
  \<open>["0041-0043"]\<close> expands to \<open>ABC\<close>, \<open>[0x61]\<close> to \<open>a\<close>, and the category
  \<open>Alphabetic\<close> to 118240 characters, more than 100000.
\<close>

theorem expansion_of_valid_declarations:
  "(list_all valid_declaration srclist \<longrightarrow>
      unicode_def_src_to_str srclist = Inr (concat (map declared_chars srclist)) \<and>
      length (concat (map declared_chars srclist)) = sum_list (map declared_count srclist)) \<and>
   (valid_declaration (SrcInt c) \<longrightarrow>
      chr c = Inr (nat c) \<and> declared_chars (SrcInt c) = [nat c] \<and>
      declared_count (SrcInt c) = 1) \<and>
   (valid_declaration (SrcStr s) \<longrightarrow>
      (\<exists>a b A B. split s HYPHEN = [a, b] \<and> int16 a = Inr A \<and> int16 b = Inr B \<and> A \<le> B \<and>
         declared_chars (SrcStr s) = map nat [A..B] \<and> sorted (declared_chars (SrcStr s)) \<and>
         declared_count (SrcStr s) = nat (B - A + 1))) \<and>
   unicode_def_src_to_str [SrcStr (str ''0041-0043'')] = Inr (str ''ABC'') \<and>
   unicode_def_src_to_str [SrcInt 0x61] = Inr (str ''a'') \<and>
   (\<exists>chars. get_unicode_characters (str ''Alphabetic'') = Inr chars \<and>
      length chars = 118240 \<and> 100000 < length chars)"
proof -
  have general: "unicode_def_src_to_str srclist = Inr (concat (map declared_chars srclist)) \<and>
      length (concat (map declared_chars srclist)) = sum_list (map declared_count srclist)"
    if "list_all valid_declaration srclist"
    using that by (simp add: to_str_valid length_concat_declared)
  have single: "chr c = Inr (nat c) \<and> declared_chars (SrcInt c) = [nat c] \<and>
      declared_count (SrcInt c) = 1"
    if "valid_declaration (SrcInt c)"
    using that by (simp add: valid_declaration_def chr_ok declared_chars_def declared_count_def)
  have range: "\<exists>a b A B. split s HYPHEN = [a, b] \<and> int16 a = Inr A \<and> int16 b = Inr B \<and>
         A \<le> B \<and> declared_chars (SrcStr s) = map nat [A..B] \<and>
         sorted (declared_chars (SrcStr s)) \<and> declared_count (SrcStr s) = nat (B - A + 1)"
    if v: "valid_declaration (SrcStr s)"
  proof -
    from v obtain A B where r: "int16_each (split s HYPHEN) = Inr [A, B]"
      and le: "A \<le> B" and lo: "0 \<le> A"
      by (auto simp: valid_declaration_def split: sum.splits list.splits)
    from int16_each_pair [OF r] obtain a b
      where ab: "split s HYPHEN = [a, b]" "int16 a = Inr A" "int16 b = Inr B"
      by blast
    have "sorted (map nat [A..B])"
      using lo by (auto simp: sorted_map intro!: sorted_wrt_mono_rel [OF _ sorted_upto])
    with r ab le show ?thesis
      by (auto simp: declared_chars_def declared_count_def)
  qed
  have abc: "unicode_def_src_to_str [SrcStr (str ''0041-0043'')] = Inr (str ''ABC'')"
    by (simp add: unicode_def_src_to_str_def chr_def evaluate_declaration)
  have a: "unicode_def_src_to_str [SrcInt 0x61] = Inr (str ''a'')"
    by (simp add: unicode_def_src_to_str_def chr_def str_def)
  have "get_unicode_characters (str ''Alphabetic'') =
      Inr (concat (map declared_chars Alphabetic_src))"
    by (simp add: get_unicode_characters_def map_of_Alphabetic to_str_valid [OF valid_Alphabetic])
  moreover have "length (concat (map declared_chars Alphabetic_src)) = 118240"
    by (simp only: length_concat_declared count_Alphabetic)
  ultimately have alpha: "\<exists>chars. get_unicode_characters (str ''Alphabetic'') = Inr chars \<and>
      length chars = 118240 \<and> 100000 < length chars"
    by simp
  from general single range abc a alpha show ?thesis
    by blast
qed

theorem expansion_of_valid_declarations_witness:
  "list_all valid_declaration [SrcStr (str ''0041-0043''), SrcInt 0x61] \<and>
   unicode_def_src_to_str [SrcStr (str ''0041-0043''), SrcInt 0x61] = Inr (str ''ABCa'') \<and>
   sum_list (map declared_count [SrcStr (str ''0041-0043''), SrcInt 0x61]) = 4 \<and>
   valid_declaration (SrcInt 0x61) \<and> chr 0x61 = Inr 0x61 \<and>
   valid_declaration (SrcStr (str ''0041-0043'')) \<and>
   declared_chars (SrcStr (str ''0041-0043'')) = [0x41, 0x42, 0x43]"
proof -
  have h: "list_all valid_declaration [SrcStr (str ''0041-0043''), SrcInt 0x61]"
    by (simp add: valid_declaration_def evaluate_declaration)
  have chars: "declared_chars (SrcStr (str ''0041-0043'')) = [0x41, 0x42, 0x43]"
    "declared_chars (SrcInt 0x61) = [0x61]"
    by (simp_all add: declared_chars_def evaluate_declaration)
  have count: "sum_list (map declared_count [SrcStr (str ''0041-0043''), SrcInt 0x61]) = 4"
    by (simp add: declared_count_def evaluate_declaration)
  note inst = expansion_of_valid_declarations
    [of "[SrcStr (str ''0041-0043''), SrcInt 0x61]" "0x61" "str ''0041-0043''"]
  from inst [THEN conjunct1] h chars
  have whole: "unicode_def_src_to_str [SrcStr (str ''0041-0043''), SrcInt 0x61] =
      Inr (str ''ABCa'')"
    by (simp add: str_def)
  from h have v: "valid_declaration (SrcInt 0x61)" "valid_declaration (SrcStr (str ''0041-0043''))"
    by simp_all
  from inst [THEN conjunct2, THEN conjunct1] v(1) have single: "chr 0x61 = Inr 0x61"
    by simp
  from h whole count v single chars(1) show ?thesis
    by simp
qed

subsection \<open>The categories ASCII and White_Space\<close>

text \<open>
  Claim C7. \<open>get_unicode_characters("ASCII")\<close> returns a string of length 128, and
  \<open>get_unicode_characters("White_Space")\<close> returns a string that contains the space
  character and does not contain the letter \<open>A\<close>.
\<close>

theorem ascii_and_white_space_categories:
  "(\<exists>chars. get_unicode_characters (str ''ASCII'') = Inr chars \<and> length chars = 128) \<and>
   (\<exists>chars. get_unicode_characters (str ''White_Space'') = Inr chars \<and>
      SPACE \<in> set chars \<and> of_char CHR ''A'' \<notin> set chars)"
proof -
  have "get_unicode_characters (str ''ASCII'') = Inr (concat (map declared_chars ASCII_src))"
    by (simp add: get_unicode_characters_def map_of_ASCII to_str_valid [OF valid_ASCII])
  moreover have "length (concat (map declared_chars ASCII_src)) = 128"
    unfolding length_concat_declared
    by (simp add: ASCII_src_def declared_count_def evaluate_declaration)
  moreover have "get_unicode_characters (str ''White_Space'') =
      Inr (concat (map declared_chars White_Space_src))"
    by (simp add: get_unicode_characters_def map_of_White_Space
        to_str_valid [OF valid_White_Space])
  moreover have "concat (map declared_chars White_Space_src) =
      [9, 10, 11, 12, 13, 0x20, 0x85, 0xA0, 0x1680, 0x2000, 0x2001, 0x2002, 0x2003, 0x2004,
       0x2005, 0x2006, 0x2007, 0x2008, 0x2009, 0x200A, 0x2028, 0x2029, 0x202F, 0x205F, 0x3000]"
    by (simp add: White_Space_src_def declared_chars_def evaluate_declaration)
  ultimately show ?thesis
    by simp
qed

subsection \<open>The whole table\<close>

text \<open>
  Claim C8. \<open>get_unicode_category_strings()\<close> returns a dictionary with the keys of the
  table (distinct, in the order of the table), and for every key \<open>k\<close> of the table its
  value at \<open>k\<close> is what \<open>get_unicode_characters(k)\<close> returns.
\<close>

theorem batch_agrees_with_single_lookup:
  "\<exists>d. get_unicode_category_strings = Inr d \<and>
     map fst d = map fst UNICODE_CATEGORY_SRC \<and> distinct (map fst d) \<and>
     (\<forall>k\<in>set (map fst UNICODE_CATEGORY_SRC).
        \<exists>chars. map_of d k = Some chars \<and> get_unicode_characters k = Inr chars)"
proof -
  define F where "F = (\<lambda>v. concat (map declared_chars v))"
  define d where "d = map (\<lambda>(k, v). (k, F v)) UNICODE_CATEGORY_SRC"
  have res: "get_unicode_category_strings = Inr d"
    unfolding get_unicode_category_strings_def d_def F_def
    by (rule category_strings_valid [OF table_valid])
  have keys: "map fst d = map fst UNICODE_CATEGORY_SRC"
    by (simp add: d_def comp_def case_prod_unfold)
  have look: "\<exists>chars. map_of d k = Some chars \<and> get_unicode_characters k = Inr chars"
    if "k \<in> set (map fst UNICODE_CATEGORY_SRC)" for k
  proof -
    from that obtain v where v: "map_of UNICODE_CATEGORY_SRC k = Some v"
      by (cases "map_of UNICODE_CATEGORY_SRC k") (auto simp: map_of_eq_None_iff)
    then have "(k, v) \<in> set UNICODE_CATEGORY_SRC"
      by (rule map_of_SomeD)
    with table_valid have "list_all valid_declaration v"
      by auto
    then have "get_unicode_characters k = Inr (F v)"
      using v by (simp add: get_unicode_characters_def to_str_valid F_def)
    moreover have "map_of d k = Some (F v)"
      using v by (simp add: d_def map_of_map)
    ultimately show ?thesis
      by simp
  qed
  have dist: "distinct (map fst d)"
    using keys table_keys_distinct by simp
  show ?thesis
  proof (intro exI [of _ d] conjI ballI)
    show "get_unicode_category_strings = Inr d"
      by (rule res)
    show "map fst d = map fst UNICODE_CATEGORY_SRC"
      by (rule keys)
    show "distinct (map fst d)"
      by (rule dist)
    show "\<exists>chars. map_of d k = Some chars \<and> get_unicode_characters k = Inr chars"
      if "k \<in> set (map fst UNICODE_CATEGORY_SRC)" for k
      using that by (rule look)
  qed
qed

theorem batch_agrees_with_single_lookup_witness:
  "str ''Latin'' \<in> set (map fst UNICODE_CATEGORY_SRC) \<and>
   (\<exists>d chars. get_unicode_category_strings = Inr d \<and>
      map_of d (str ''Latin'') = Some chars \<and>
      get_unicode_characters (str ''Latin'') = Inr chars)"
proof -
  have h: "str ''Latin'' \<in> set (map fst UNICODE_CATEGORY_SRC)"
    unfolding table_keys by simp
  from batch_agrees_with_single_lookup h show ?thesis
    by blast
qed

subsection \<open>The category Any\<close>

text \<open>
  Claim C10. The category \<open>Any\<close> is declared as the one range \<open>0000-10FFFF\<close>, and
  \<open>get_unicode_characters("Any")\<close> returns the string of the code points \<open>0\<close> to
  \<open>0x10FFFF\<close>, each once, in ascending order: 1114112 characters, the surrogates
  \<open>0xD800\<close> to \<open>0xDFFF\<close> among them.
\<close>

theorem any_category_has_every_code_point:
  "map_of UNICODE_CATEGORY_SRC (str ''Any'') = Some [SrcStr (str ''0000-10FFFF'')] \<and>
   (\<exists>chars. get_unicode_characters (str ''Any'') = Inr chars \<and>
      chars = [0..<0x110000] \<and> length chars = 1114112 \<and>
      set [0xD800..<0xE000] \<subseteq> set chars)"
proof -
  have "get_unicode_characters (str ''Any'') = Inr (concat (map declared_chars Any_src))"
    by (simp add: get_unicode_characters_def map_of_Any to_str_valid [OF valid_Any])
  moreover have "concat (map declared_chars Any_src) = map nat [0..0x10FFFF]"
    by (simp add: Any_src_def declared_chars_def evaluate_declaration)
  moreover have "map nat [0..0x10FFFF] = [0..<0x110000]"
    using map_nat_upto [of "0x10FFFF"] by simp
  moreover have "set [0xD800..<0xE000] \<subseteq> set [0..<(0x110000::nat)]"
    by (simp only: set_upt) simp
  moreover have "map_of UNICODE_CATEGORY_SRC (str ''Any'') = Some [SrcStr (str ''0000-10FFFF'')]"
    by (simp add: map_of_Any Any_src_def)
  ultimately show ?thesis
    by (simp del: set_upt upt_rec_numeral)
qed

end
